theory Spec2Isabelle
  imports Main
begin

section \<open>JavaScript values\<close>

text \<open>
  A thrown JavaScript value. Every \<open>throw\<close> of the code and every runtime
  \<open>TypeError\<close> (a property read on \<open>null\<close> or \<open>undefined\<close>) is a value of this
  type; a function that can throw returns \<open>js_error + 'a\<close>, with \<open>Inl\<close> the throw.
\<close>

datatype js_error = Error string | TypeError string

text \<open>
  A value produced by \<open>JSON.parse\<close> / \<open>response.json()\<close>. Numbers are kept as
  integers: the code below only asks whether a number is zero.
\<close>

datatype json =
    JNull
  | JBool bool
  | JNum int
  | JStr string
  | JArr "json list"
  | JObj "(string \<times> json) list"

text \<open>JavaScript truthiness, as used by \<open>!x\<close> and \<open>x || y\<close>.\<close>

fun truthy :: "json \<Rightarrow> bool" where
  "truthy JNull = False"
| "truthy (JBool b) = b"
| "truthy (JNum n) = (n \<noteq> 0)"
| "truthy (JStr s) = (s \<noteq> [])"
| "truthy (JArr xs) = True"
| "truthy (JObj kvs) = True"

text \<open>
  The property read \<open>v.images\<close>: a \<open>TypeError\<close> on \<open>null\<close>, \<open>undefined\<close>
  (\<open>None\<close>) on a value that has no such property, the property's value otherwise.
\<close>

fun get_prop :: "json \<Rightarrow> string \<Rightarrow> js_error + json option" where
  "get_prop JNull k = Inl (TypeError ''Cannot read properties of null'')"
| "get_prop (JObj kvs) k = Inr (map_of kvs k)"
| "get_prop v k = Inr None"

text \<open>
  The template literal \<open>`${v}`\<close>: a string is spliced as it is; the text of any other
  value is what JavaScript's \<open>String(v)\<close> gives, taken as the parameter \<open>to_string\<close>.
\<close>

fun interpolate :: "(json \<Rightarrow> string) \<Rightarrow> json \<Rightarrow> string" where
  "interpolate to_string (JStr s) = s"
| "interpolate to_string v = to_string v"

section \<open>trimTokens (core/src/generation.ts)\<close>

text \<open>
  \<open>Array.prototype.slice(start)\<close> and \<open>String.prototype.slice(start)\<close> with one
  integer argument: a negative \<open>start\<close> counts from the end, and both ends are
  clamped to the length. \<open>slice(-0)\<close> is \<open>slice(0)\<close>, the whole sequence.
\<close>

definition js_slice :: "'a list \<Rightarrow> int \<Rightarrow> 'a list" where
  "js_slice xs start =
     (let len = int (length xs);
          k = (if start < 0 then max (len + start) 0 else min start len)
      in drop (nat k) xs)"

text \<open>
  A js-tiktoken encoding: \<open>encode\<close> and \<open>decode\<close>, either of which may throw. A
  string is its sequence of UTF-16 code units, a token a number.
\<close>

record encoding =
  encode :: "string \<Rightarrow> js_error + nat list"
  decode :: "nat list \<Rightarrow> js_error + string"

text \<open>
  What \<open>trimTokens\<close> reads from the runtime: the settings \<open>TOKENIZER_MODEL\<close> and
  \<open>TOKENIZER_TYPE\<close> (\<open>None\<close> for an unset one), the string of the enum member
  \<open>TokenizerType.TikToken\<close> (declared in core/src/types.ts, kept as a
  parameter), and js-tiktoken's \<open>encodingForModel\<close>, which throws on an unknown model.
\<close>

record tokenizer_env =
  TOKENIZER_MODEL :: "string option"
  TOKENIZER_TYPE :: "string option"
  TikToken :: string
  encodingForModel :: "string \<Rightarrow> js_error + encoding"

text \<open>The body of the \<open>try\<close> block of \<open>truncateTiktoken\<close>; \<open>Inl\<close> is a throw.\<close>

definition tiktoken_truncate ::
  "(string \<Rightarrow> js_error + encoding) \<Rightarrow> string \<Rightarrow> string \<Rightarrow> int \<Rightarrow> js_error + string" where
  "tiktoken_truncate efm model context maxTokens =
     (case efm model of
        Inl e \<Rightarrow> Inl e
      | Inr enc \<Rightarrow>
          (case encode enc context of
             Inl e \<Rightarrow> Inl e
           | Inr tokens \<Rightarrow>
               if int (length tokens) \<le> maxTokens then Inr context
               else decode enc (js_slice tokens (- maxTokens))))"

text \<open>\<open>truncateTiktoken\<close>: the \<open>catch\<close> falls back to four characters per token.\<close>

definition truncateTiktoken ::
  "(string \<Rightarrow> js_error + encoding) \<Rightarrow> string \<Rightarrow> string \<Rightarrow> int \<Rightarrow> string" where
  "truncateTiktoken efm model context maxTokens =
     (case tiktoken_truncate efm model context maxTokens of
        Inr s \<Rightarrow> s
      | Inl e \<Rightarrow> js_slice context (- maxTokens * 4))"

text \<open>\<open>!setting\<close>: an unset or empty setting is falsy.\<close>

definition falsy_setting :: "string option \<Rightarrow> bool" where
  "falsy_setting v = (case v of None \<Rightarrow> True | Some s \<Rightarrow> s = [])"

text \<open>
  \<open>trimTokens\<close>. \<open>maxTokens\<close> is an integer here: the limits are token counts.
\<close>

definition trimTokens :: "tokenizer_env \<Rightarrow> string \<Rightarrow> int \<Rightarrow> js_error + string" where
  "trimTokens env context maxTokens =
     (if context = [] then Inr []
      else if maxTokens \<le> 0 then Inl (Error ''maxTokens must be positive'')
      else if falsy_setting (TOKENIZER_MODEL env) \<or> falsy_setting (TOKENIZER_TYPE env) then
        Inr (truncateTiktoken (encodingForModel env) ''gpt-4o'' context maxTokens)
      else if TOKENIZER_TYPE env = Some (TikToken env) then
        Inr (truncateTiktoken (encodingForModel env) (the (TOKENIZER_MODEL env)) context maxTokens)
      else Inr (truncateTiktoken (encodingForModel env) ''gpt-4o'' context maxTokens))"

text \<open>
  The tokenizer model \<open>trimTokens\<close> ends up using: the configured one when both
  settings are present and the type is TikToken, \<open>gpt-4o\<close> otherwise.
\<close>

definition configured_model :: "tokenizer_env \<Rightarrow> string" where
  "configured_model env =
     (if falsy_setting (TOKENIZER_MODEL env) \<or> falsy_setting (TOKENIZER_TYPE env) then ''gpt-4o''
      else if TOKENIZER_TYPE env = Some (TikToken env) then the (TOKENIZER_MODEL env)
      else ''gpt-4o'')"

text \<open>The last \<open>n\<close> elements of a sequence (all of it when it is shorter).\<close>

definition last_elems :: "nat \<Rightarrow> 'a list \<Rightarrow> 'a list" where
  "last_elems n xs = drop (length xs - n) xs"

text \<open>A tokenizer for the examples: one token per character, its code.\<close>

definition char_encoding :: encoding where
  "char_encoding =
     \<lparr>encode = (\<lambda>s. Inr (map of_char s)), decode = (\<lambda>ts. Inr (map char_of ts))\<rparr>"

definition char_env :: tokenizer_env where
  "char_env =
     \<lparr>TOKENIZER_MODEL = None, TOKENIZER_TYPE = None, TikToken = ''tiktoken'',
      encodingForModel = (\<lambda>m. Inr char_encoding)\<rparr>"

section \<open>generateObjectDeprecated (core/src/generation.ts)\<close>

record LanguageModelUsage =
  promptTokens :: nat
  completionTokens :: nat
  totalTokens :: nat

datatype ModelProviderName = OPENAI | VENICE | OtherProvider string

text \<open>
  The arguments of \<open>generateObjectDeprecated\<close> that its own code reads:
  \<open>context\<close>, \<open>messages\<close> (\<open>None\<close> when the caller passes none),
  \<open>modelProvider\<close> and \<open>returnUsage\<close>.
\<close>

record 'm object_request =
  req_context :: string
  messages :: "'m list option"
  modelProvider :: "ModelProviderName option"
  returnUsage :: bool

text \<open>
  The calls the loop makes: \<open>generateText\<close>, whose \<open>n\<close>-th call (from 0) throws or
  yields a text with its usage; the \<open>replace\<close> that removes \<open><think>\<close> blocks;
  and \<open>parseJSONObjectFromText\<close> (core/src/parsing.ts), which yields an object or
  \<open>null\<close>.
\<close>

record 'o object_env =
  generateText :: "nat \<Rightarrow> js_error + string \<times> LanguageModelUsage"
  strip_think :: "string \<Rightarrow> string"
  parseJSONObjectFromText :: "string \<Rightarrow> js_error + 'o option"

text \<open>
  The body of the \<open>try\<close> block, for the \<open>n\<close>-th pass of the loop: \<open>Inl\<close> is a throw
  (caught and logged), \<open>Inr None\<close> a response that does not parse, \<open>Inr (Some r)\<close>
  the value the function returns.
\<close>

definition object_attempt ::
  "'o object_env \<Rightarrow> 'm object_request \<Rightarrow> nat \<Rightarrow>
     js_error + ('o \<times> LanguageModelUsage option) option" where
  "object_attempt env req n =
     (case generateText env n of
        Inl e \<Rightarrow> Inl e
      | Inr (text, u) \<Rightarrow>
          (let usage = (if returnUsage req then Some u else None);
               response = (if modelProvider req = Some VENICE then strip_think env text else text)
           in case parseJSONObjectFromText env response of
                Inl e \<Rightarrow> Inl e
              | Inr None \<Rightarrow> Inr None
              | Inr (Some parsedResponse) \<Rightarrow> Inr (Some (parsedResponse, usage))))"

text \<open>
  The \<open>while (true)\<close> loop. \<open>waits\<close> records the delay of every
  \<open>setTimeout(resolve, retryDelay)\<close> so far, in milliseconds. A loop that never
  returns has the value \<open>None\<close>.
\<close>

partial_function (option) retry_loop ::
  "(nat \<Rightarrow> js_error + 'r option) \<Rightarrow> nat \<Rightarrow> nat \<Rightarrow> nat list \<Rightarrow> ('r \<times> nat list) option" where
  "retry_loop attempt n retryDelay waits =
     (case attempt n of
        Inr (Some r) \<Rightarrow> Some (r, waits)
      | _ \<Rightarrow> retry_loop attempt (Suc n) (retryDelay * 2) (waits @ [retryDelay]))"

text \<open>
  \<open>generateObjectDeprecated\<close>: the returned value (\<open>None\<close> for \<open>null\<close>) with the
  waits made. With an empty context, \<open>messages.length\<close> is read: a \<open>TypeError\<close> when
  there are no messages at all.
\<close>

definition generateObjectDeprecated ::
  "'o object_env \<Rightarrow> 'm object_request \<Rightarrow>
     (js_error + ('o \<times> LanguageModelUsage option) option \<times> nat list) option" where
  "generateObjectDeprecated env req =
     (if req_context req = [] \<and> messages req = None then
        Some (Inl (TypeError ''Cannot read properties of undefined (reading length)''))
      else if req_context req = [] \<and> messages req = Some [] then Some (Inr (None, []))
      else map_option (\<lambda>(r, waits). Inr (Some r, waits))
             (retry_loop (object_attempt env req) 0 1000 []))"

text \<open>A pass of the loop fails when it does not return: a throw or an unparsed response.\<close>

definition attempt_failed :: "(js_error + 'r option) \<Rightarrow> bool" where
  "attempt_failed a = (case a of Inr (Some r) \<Rightarrow> False | _ \<Rightarrow> True)"

text \<open>A provider whose first two answers do not parse and whose third does.\<close>

definition third_time_env :: "string object_env" where
  "third_time_env =
     \<lparr>generateText = (\<lambda>n. Inr (if n < 2 then ''not json'' else ''{}'',
                         \<lparr>promptTokens = 7, completionTokens = 3, totalTokens = 10\<rparr>)),
      strip_think = (\<lambda>s. s),
      parseJSONObjectFromText = (\<lambda>s. Inr (if s = ''{}'' then Some ''{}'' else None))\<rparr>"

definition decision_request :: "unit object_request" where
  "decision_request =
     \<lparr>req_context = ''decide'', messages = Some [], modelProvider = Some OPENAI,
      returnUsage = False\<rparr>"

section \<open>generateImage (core/src/generation.ts)\<close>

record image_data =
  prompt :: string
  width :: int
  height :: int
  negativePrompt :: "string option"
  numIterations :: "int option"
  guidanceScale :: "int option"
  seed :: "int option"
  modelId :: "string option"
  stylePreset :: "string option"
  hideWatermark :: "bool option"
  safeMode :: "bool option"
  inpaint :: "(int \<times> string) option"

record venice_request =
  req_model :: string
  req_prompt :: string
  req_cfg_scale :: "int option"
  req_negative_prompt :: "string option"
  req_width :: int
  req_height :: int
  req_steps :: "int option"
  req_safe_mode :: "bool option"
  req_seed :: "int option"
  req_style_preset :: "string option"
  req_hide_watermark :: "bool option"
  req_inpaint :: "(int \<times> string) option"

text \<open>The HTTP response of \<open>fetch\<close>: its status and what \<open>response.json()\<close> yields.\<close>

record http_response =
  status_code :: nat
  json_body :: "js_error + json"

text \<open>
  What \<open>generateImage\<close> reads from its surroundings: the image model settings of the
  provider (\<open>getImageModelSettings\<close>, here the settings' \<open>name\<close>, \<open>None\<close> when there
  are none), \<open>process.env.VENICE_API_KEY\<close> (the read sits in a \<open>try\<close>), whether a
  global \<open>fetch\<close> exists, and \<open>fetch\<close> itself, from the URL, the bearer token and the
  request body to a response or a rejection.
\<close>

record image_env =
  imageModelSettings :: "string option"
  VENICE_API_KEY :: "js_error + string option"
  fetch_is_function :: bool
  fetch :: "string \<Rightarrow> string \<Rightarrow> venice_request \<Rightarrow> js_error + http_response"

text \<open>The \<open>error\<close> field: a message string, or the value caught by the last \<open>catch\<close>.\<close>

datatype image_error = Msg string | Caught js_error

record image_result =
  success :: bool
  data :: "string list option"
  error :: "image_error option"

definition image_failure :: "image_error \<Rightarrow> image_result" where
  "image_failure e = \<lparr>success = False, data = None, error = Some e\<rparr>"

definition image_success :: "string list \<Rightarrow> image_result" where
  "image_success xs = \<lparr>success = True, data = Some xs, error = None\<rparr>"

text \<open>\<open>data.modelId || model\<close>: an absent or empty \<open>modelId\<close> is falsy.\<close>

definition model_or_default :: "string option \<Rightarrow> string \<Rightarrow> string" where
  "model_or_default mid model =
     (case mid of None \<Rightarrow> model | Some m \<Rightarrow> if m = [] then model else m)"

definition venice_request_body :: "image_data \<Rightarrow> string \<Rightarrow> venice_request" where
  "venice_request_body d model =
     \<lparr>req_model = model_or_default (modelId d) model,
      req_prompt = prompt d,
      req_cfg_scale = guidanceScale d,
      req_negative_prompt = negativePrompt d,
      req_width = width d,
      req_height = height d,
      req_steps = numIterations d,
      req_safe_mode = safeMode d,
      req_seed = seed d,
      req_style_preset = stylePreset d,
      req_hide_watermark = hideWatermark d,
      req_inpaint = inpaint d\<rparr>"

text \<open>
  \<open>result.images.map(...)\<close>: the callback throws on a falsy element, which ends the
  \<open>map\<close>; every other element becomes a PNG data URI.
\<close>

fun to_data_uris :: "(json \<Rightarrow> string) \<Rightarrow> json list \<Rightarrow> js_error + string list" where
  "to_data_uris to_string [] = Inr []"
| "to_data_uris to_string (x # xs) =
     (if \<not> truthy x then Inl (Error ''Empty base64 string in Venice AI response'')
      else (case to_data_uris to_string xs of
              Inl e \<Rightarrow> Inl e
            | Inr ys \<Rightarrow> Inr ((''data:image/png;base64,'' @ interpolate to_string x) # ys)))"

text \<open>
  The body of the last \<open>try\<close> block: the fetch, the inner \<open>try\<close> around
  \<open>response.json()\<close>, the format check and the map. \<open>Inl\<close> is a throw that reaches
  the block's \<open>catch\<close>.
\<close>

definition venice_call ::
  "image_env \<Rightarrow> (json \<Rightarrow> string) \<Rightarrow> string \<Rightarrow> venice_request \<Rightarrow> js_error + image_result" where
  "venice_call env to_string apiKey body =
     (case fetch env ''https://api.venice.ai/api/v1/image/generate'' (''Bearer '' @ apiKey) body of
        Inl e \<Rightarrow> Inl e
      | Inr response \<Rightarrow>
          (case json_body response of
             Inl jsonErr \<Rightarrow> Inr (image_failure (Msg ''Failed to parse Venice response as JSON''))
           | Inr result \<Rightarrow>
               (case get_prop result ''images'' of
                  Inl e \<Rightarrow> Inl e
                | Inr None \<Rightarrow> Inr (image_failure (Msg ''Invalid response format from Venice AI''))
                | Inr (Some images) \<Rightarrow>
                    if \<not> truthy images then
                      Inr (image_failure (Msg ''Invalid response format from Venice AI''))
                    else (case images of
                            JArr xs \<Rightarrow>
                              (case to_data_uris to_string xs of
                                 Inl e \<Rightarrow> Inl e
                               | Inr base64s \<Rightarrow> Inr (image_success base64s))
                          | _ \<Rightarrow> Inr (image_failure (Msg ''Invalid response format from Venice AI''))))))"

text \<open>
  \<open>generateImage\<close>. The provider is always Venice. The statements outside the
  \<open>try\<close> blocks are logger calls, the settings lookup and the \<open>typeof fetch\<close> test.
  The \<open>try\<close> around the construction of the request body reads fields of \<open>data\<close>
  only, so its \<open>catch\<close> has no branch here.
\<close>

definition generateImage ::
  "image_env \<Rightarrow> (json \<Rightarrow> string) \<Rightarrow> image_data \<Rightarrow> js_error + image_result" where
  "generateImage env to_string d =
     (case imageModelSettings env of
        None \<Rightarrow> Inr (image_failure (Msg ''No model settings available''))
      | Some model \<Rightarrow>
          (case VENICE_API_KEY env of
             Inl e \<Rightarrow> Inr (image_failure (Msg ''Failed to retrieve VENICE_API_KEY''))
           | Inr None \<Rightarrow> Inr (image_failure (Msg ''VENICE_API_KEY is missing''))
           | Inr (Some apiKey) \<Rightarrow>
               if apiKey = [] then Inr (image_failure (Msg ''VENICE_API_KEY is missing''))
               else if \<not> fetch_is_function env then
                 Inr (image_failure (Msg ''Global fetch is not available''))
               else (case venice_call env to_string apiKey (venice_request_body d model) of
                       Inl e \<Rightarrow> Inr (image_failure (Caught e))
                     | Inr r \<Rightarrow> Inr r)))"

text \<open>An environment in which Venice answers with one image.\<close>

definition image_env_ok :: image_env where
  "image_env_ok =
     \<lparr>imageModelSettings = Some ''fluently-xl'',
      VENICE_API_KEY = Inr (Some ''k''),
      fetch_is_function = True,
      fetch = (\<lambda>url auth body.
         Inr \<lparr>status_code = 200,
              json_body = Inr (JObj [(''images'', JArr [JStr ''QUJD''])])\<rparr>)\<rparr>"

definition hero_image_data :: image_data where
  "hero_image_data =
     \<lparr>prompt = ''hero'', width = 1024, height = 1024, negativePrompt = None,
      numIterations = None, guidanceScale = None, seed = None, modelId = Some ''venice-sd35'',
      stylePreset = None, hideWatermark = None, safeMode = None, inpaint = None\<rparr>"

section \<open>Smart media types (client-bonsai/src/utils/types.ts)\<close>

datatype LaunchpadChain = BASE | LENS

datatype SmartMediaStatus = ACTIVE | FAILED | DISABLED

datatype TemplateName =
  ADVENTURE_TIME | EVOLVING_ART | INFO_AGENT | ADVENTURE_TIME_VIDEO | RPG_GAME | BONSAI_GARDEN

datatype TemplateCategory =
  EVOLVING_POST_CATEGORY | EVOLVING_ART_CATEGORY | CAMPFIRE_CATEGORY | BONSAI_GARDEN_CATEGORY

record LaunchpadToken =
  token_chain :: LaunchpadChain
  token_address :: string

text \<open>
  \<open>SmartMedia\<close> (\<open>SmartMediaBase\<close> and its extension in one record). An optional
  field is an \<open>option\<close>; \<open>'td\<close> is the template's own data.
\<close>

record 'td SmartMedia =
  agentId :: string
  creator :: string
  template :: TemplateName
  category :: TemplateCategory
  createdAt :: int
  updatedAt :: int
  templateData :: "'td option"
  postId :: string
  maxStaleTime :: int
  uri :: string
  token :: "LaunchpadToken option"
  versions :: "string list option"
  versionCount :: "nat option"
  canvas :: "string option"
  status :: "SmartMediaStatus option"

text \<open>
  \<open>TemplateUsage = LanguageModelUsage & {...}\<close>. The type declares no
  \<open>videosCreated\<close> property and no template of the repository sets one, but
  \<open>handlePostUpdate\<close> reads it: it is kept as a field that is \<open>None\<close> (the read
  yields \<open>undefined\<close>) unless an object carries the undeclared property.
\<close>

record TemplateUsage = LanguageModelUsage +
  imagesCreated :: "nat option"
  videosCreated :: "nat option"
  videoCostParams :: "(string \<times> nat) option"
  audioCharacters :: "nat option"
  customTokens :: "(string \<times> LanguageModelUsage) list option"

record 'td TemplateHandlerResponse =
  preview :: "string option"
  metadata :: "json option"
  refreshMetadata :: "bool option"
  refreshCache :: "bool option"
  persistVersionUri :: "string option"
  updatedTemplateData :: "'td option"
  totalUsage :: "TemplateUsage option"

text \<open>Truthiness of an optional boolean, of an optional string and of optional JSON.\<close>

definition flag :: "bool option \<Rightarrow> bool" where
  "flag b = (b = Some True)"

definition nonempty :: "string option \<Rightarrow> bool" where
  "nonempty s = (case s of None \<Rightarrow> False | Some x \<Rightarrow> x \<noteq> [])"

definition present :: "json option \<Rightarrow> bool" where
  "present v = (case v of None \<Rightarrow> False | Some x \<Rightarrow> truthy x)"

text \<open>\<open>n || 0\<close> for an optional count.\<close>

definition or_zero :: "nat option \<Rightarrow> nat" where
  "or_zero n = (case n of None \<Rightarrow> 0 | Some k \<Rightarrow> k)"

text \<open>
  A template: its handler, called as \<open>handler(runtime, media, templateData, {forceUpdate})\<close>
  (it may throw), and the parts of its client metadata the service reads.
\<close>

record 'td Template =
  handler :: "'td SmartMedia option \<Rightarrow> 'td option \<Rightarrow> bool \<Rightarrow>
                js_error + 'td TemplateHandlerResponse option"
  template_name :: TemplateName
  defaultModel :: "string option"

section \<open>The bonsaiGarden template (client-bonsai/src/templates/bonsaiGarden.ts)\<close>

record BonsaiGardenTemplateData =
  personality :: string
  action :: string
  td_modelId :: "string option"
  td_stylePreset :: "string option"
  minCommentUpdateThreshold :: "int option"

text \<open>A comment (a Lens \<open>Post\<close>): its id, its author's address and its text.\<close>

record lens_comment =
  comment_id :: string
  author_address :: string
  comment_content :: string

record weighted_comment =
  content :: string
  votes :: int

datatype evm_chain = base | LENS_CHAIN

text \<open>
  The collaborators of the handler, taken as parameters: \<open>isMediaStale\<close>;
  \<open>fetchAllCommentsFor\<close> and \<open>getLatestComments\<close>; the collectors of a post; the
  up-voters of a comment; the batched token balances; \<open>getVoteWeightFromBalance\<close>;
  the resolution of the post's metadata to its image URI and URL; the built-in
  \<open>String.prototype.trim\<close>; \<open>generateText\<close> and \<open>generateImage\<close> (their
  \<open>n\<close>-th call, from 0); and the storage of the previous version and of the new image,
  which yields the version URI to persist, if any. Each asynchronous one may reject.
\<close>

record garden_env =
  isMediaStale :: "BonsaiGardenTemplateData SmartMedia \<Rightarrow> bool"
  fetchAllCommentsFor :: "string \<Rightarrow> js_error + lens_comment list"
  getLatestComments :: "BonsaiGardenTemplateData SmartMedia \<Rightarrow> lens_comment list \<Rightarrow> lens_comment list"
  trim :: "string \<Rightarrow> string"
  fetchAllCollectorsFor :: "string \<Rightarrow> js_error + string list"
  fetchAllUpvotersFor :: "string \<Rightarrow> js_error + string list"
  balanceOfBatched :: "evm_chain \<Rightarrow> string list \<Rightarrow> string \<Rightarrow> js_error + int list"
  getVoteWeightFromBalance :: "int \<Rightarrow> int"
  resolveImage :: "string \<Rightarrow> js_error + string \<times> string"
  heroText :: "nat \<Rightarrow> string \<Rightarrow> string \<Rightarrow> string \<Rightarrow> js_error + string \<times> LanguageModelUsage"
  heroImage :: "nat \<Rightarrow> image_data \<Rightarrow> js_error + image_result"
  persistVersion :: "string \<Rightarrow> image_result \<Rightarrow> js_error + string option"

definition DEFAULT_HERO_IMAGE_MODEL_ID :: string where
  "DEFAULT_HERO_IMAGE_MODEL_ID = ''venice-sd35''"

definition DEFAULT_MIN_ENGAGEMENT_UPDATE_THREHOLD :: int where
  "DEFAULT_MIN_ENGAGEMENT_UPDATE_THREHOLD = 1"

definition MAX_ATTEMPTS :: nat where
  "MAX_ATTEMPTS = 2"

text \<open>The \<open>totalUsage\<close> object the handler starts from.\<close>

definition initial_usage :: TemplateUsage where
  "initial_usage =
     \<lparr>promptTokens = 0, completionTokens = 0, totalTokens = 0,
      imagesCreated = Some 0, videosCreated = None, videoCostParams = None,
      audioCharacters = None, customTokens = None\<rparr>"

text \<open>\<open>return { metadata: undefined, totalUsage }\<close>.\<close>

definition skip_response :: "TemplateUsage \<Rightarrow> 'td TemplateHandlerResponse" where
  "skip_response u =
     \<lparr>preview = None, metadata = None, refreshMetadata = None, refreshCache = None,
      persistVersionUri = None, updatedTemplateData = None, totalUsage = Some u\<rparr>"

subsection \<open>The comments to evaluate\<close>

text \<open>
  A comment as the object lodash sees: the properties of a \<open>Post\<close> that the handler
  reads. A \<open>Post\<close> has no property named \<open>comment\<close>.
\<close>

definition post_object :: "lens_comment \<Rightarrow> json" where
  "post_object c =
     JObj [(''id'', JStr (comment_id c)),
           (''author'', JObj [(''address'', JStr (author_address c))]),
           (''metadata'', JObj [(''content'', JStr (comment_content c))])]"

text \<open>
  lodash \<open>get(object, path)\<close> for a path of property names: \<open>undefined\<close>
  (\<open>None\<close>) as soon as a property on the way is missing.
\<close>

fun get_path :: "json \<Rightarrow> string list \<Rightarrow> json option" where
  "get_path v [] = Some v"
| "get_path (JObj kvs) (k # ks) =
     (case map_of kvs k of None \<Rightarrow> None | Some v \<Rightarrow> get_path v ks)"
| "get_path v (k # ks) = None"

text \<open>
  lodash \<open>uniqBy(xs, iteratee)\<close>: the first element of every value of the iteratee,
  in order.
\<close>

fun uniqBy_from :: "('a \<Rightarrow> 'k) \<Rightarrow> 'k list \<Rightarrow> 'a list \<Rightarrow> 'a list" where
  "uniqBy_from f seen [] = []"
| "uniqBy_from f seen (x # xs) =
     (if f x \<in> set seen then uniqBy_from f seen xs else x # uniqBy_from f (f x # seen) xs)"

definition uniqBy :: "('a \<Rightarrow> 'k) \<Rightarrow> 'a list \<Rightarrow> 'a list" where
  "uniqBy f xs = uniqBy_from f [] xs"

text \<open>\<open>uniqBy(comments, 'comment.author.address')\<close>, as the handler calls it.\<close>

definition uniq_comments :: "lens_comment list \<Rightarrow> lens_comment list" where
  "uniq_comments comments =
     uniqBy (\<lambda>c. get_path (post_object c) [''comment'', ''author'', ''address'']) comments"

subsection \<open>Weighted votes\<close>

text \<open>lodash \<open>uniq\<close>: the first occurrence of every element, in order.\<close>

fun uniq_from :: "'a list \<Rightarrow> 'a list \<Rightarrow> 'a list" where
  "uniq_from seen [] = []"
| "uniq_from seen (x # xs) =
     (if x \<in> set seen then uniq_from seen xs else x # uniq_from (x # seen) xs)"

definition uniq :: "'a list \<Rightarrow> 'a list" where
  "uniq xs = uniq_from [] xs"

text \<open>
  The voters of a comment that count: the up-voters, then the author
  (\<open>voters.push\<close>), without repetitions, collectors only.
\<close>

definition qualifying_voters :: "string list \<Rightarrow> string list \<Rightarrow> string \<Rightarrow> string list" where
  "qualifying_voters allCollectors upvoters author =
     filter (\<lambda>account. account \<in> set allCollectors) (uniq (upvoters @ [author]))"

text \<open>\<open>!media?.token?.address\<close>.\<close>

definition no_token :: "'td SmartMedia \<Rightarrow> bool" where
  "no_token media = (case token media of None \<Rightarrow> True | Some t \<Rightarrow> token_address t = [])"

text \<open>The callback of \<open>comments.map\<close>, for one comment.\<close>

definition commentWeighted ::
  "garden_env \<Rightarrow> 'td SmartMedia \<Rightarrow> string list \<Rightarrow> lens_comment \<Rightarrow> js_error + weighted_comment" where
  "commentWeighted env media allCollectors comment =
     (case fetchAllUpvotersFor env (comment_id comment) of
        Inl e \<Rightarrow> Inl e
      | Inr upvoters \<Rightarrow>
          (let voters = qualifying_voters allCollectors upvoters (author_address comment)
           in case token media of
                None \<Rightarrow> Inr \<lparr>content = comment_content comment, votes = int (length voters)\<rparr>
              | Some t \<Rightarrow>
                  if token_address t = [] then
                    Inr \<lparr>content = comment_content comment, votes = int (length voters)\<rparr>
                  else
                    (case balanceOfBatched env
                            (if token_chain t = BASE then base else LENS_CHAIN)
                            voters (token_address t) of
                       Inl e \<Rightarrow> Inl e
                     | Inr balances \<Rightarrow>
                         Inr \<lparr>content = comment_content comment,
                              votes = foldl (\<lambda>acc b. acc + getVoteWeightFromBalance env b)
                                        0 balances\<rparr>)))"

text \<open>
  \<open>Promise.all(xs.map(f))\<close>: the results in order, or a rejection when a callback
  rejects (here the first in list order).
\<close>

fun promise_all :: "('a \<Rightarrow> js_error + 'b) \<Rightarrow> 'a list \<Rightarrow> js_error + 'b list" where
  "promise_all f [] = Inr []"
| "promise_all f (x # xs) =
     (case f x of
        Inl e \<Rightarrow> Inl e
      | Inr y \<Rightarrow> (case promise_all f xs of Inl e \<Rightarrow> Inl e | Inr ys \<Rightarrow> Inr (y # ys)))"

definition commentsWeighted ::
  "garden_env \<Rightarrow> 'td SmartMedia \<Rightarrow> string list \<Rightarrow> lens_comment list \<Rightarrow>
     js_error + weighted_comment list" where
  "commentsWeighted env media allCollectors comments =
     promise_all (commentWeighted env media allCollectors) comments"

text \<open>
  lodash \<open>orderBy(xs, 'votes', 'desc')\<close>, a stable sort: the descending order of the
  votes is the ascending order of their negations.
\<close>

definition orderBy_votes_desc :: "weighted_comment list \<Rightarrow> weighted_comment list" where
  "orderBy_votes_desc ws = sort_key (\<lambda>w. - votes w) ws"

text \<open>\<open>orderBy(commentsWeighted, 'votes', 'desc')[0].content\<close>.\<close>

definition topComment :: "weighted_comment list \<Rightarrow> js_error + string" where
  "topComment ws =
     (case orderBy_votes_desc ws of
        [] \<Rightarrow> Inl (TypeError ''Cannot read properties of undefined (reading content)'')
      | w # rest \<Rightarrow> Inr (content w))"

subsection \<open>The hero's traits\<close>

text \<open>\<open>s.split(c)\<close> for a one-character separator: never an empty list.\<close>

fun split_on :: "char \<Rightarrow> string \<Rightarrow> string list" where
  "split_on c [] = [[]]"
| "split_on c (x # xs) =
     (case split_on c xs of
        [] \<Rightarrow> (if x = c then [[], []] else [[x]])
      | w # ws \<Rightarrow> (if x = c then [] # w # ws else (x # w) # ws))"

definition or_default :: "string \<Rightarrow> string \<Rightarrow> string" where
  "or_default s d = (if s = [] then d else s)"

text \<open>
  The destructuring \<open>[personality, action] = topComment.split("|")\<close> and the
  defaults that follow; \<open>strip\<close> stands for the built-in \<open>s.trim()\<close>.
\<close>

definition hero_traits :: "(string \<Rightarrow> string) \<Rightarrow> string \<Rightarrow> string \<times> string" where
  "hero_traits strip topText =
     (let parts = split_on (CHR ''|'') topText;
          personality0 = (case parts of [] \<Rightarrow> [] | p # rest \<Rightarrow> p);
          action0 = (case parts of p # a # rest \<Rightarrow> a | _ \<Rightarrow> []);
          action1 = or_default action0 ''standing heroically''
      in (or_default (strip personality0) ''Brave, clever, and kind'',
          or_default (strip action1) ''standing heroically''))"

subsection \<open>The image loop\<close>

text \<open>The argument of \<open>generateImage\<close>; \<open>firstAttempt\<close> is the constant \<open>false\<close>,
  so there is no inpainting.\<close>

definition hero_image_request :: "BonsaiGardenTemplateData \<Rightarrow> string \<Rightarrow> image_data" where
  "hero_image_request td imagePrompt =
     \<lparr>prompt = imagePrompt, width = 1024, height = 1024, negativePrompt = None,
      numIterations = None, guidanceScale = None, seed = None,
      modelId = Some (model_or_default (td_modelId td) DEFAULT_HERO_IMAGE_MODEL_ID),
      stylePreset = td_stylePreset td, hideWatermark = None, safeMode = None,
      inpaint = None\<rparr>"

definition add_tokens :: "TemplateUsage \<Rightarrow> LanguageModelUsage \<Rightarrow> TemplateUsage" where
  "add_tokens usage u =
     usage\<lparr>promptTokens := promptTokens usage + promptTokens u,
            completionTokens := completionTokens usage + completionTokens u,
            totalTokens := totalTokens usage + totalTokens u\<rparr>"

text \<open>\<open>totalUsage.imagesCreated += 1\<close> (\<open>undefined + 1\<close> is no count).\<close>

definition add_image :: "TemplateUsage \<Rightarrow> TemplateUsage" where
  "add_image usage = usage\<lparr>imagesCreated := map_option Suc (imagesCreated usage)\<rparr>"

text \<open>
  The \<open>while (attempts < MAX_ATTEMPTS)\<close> loop, from the state \<open>attempts\<close>,
  \<open>totalUsage\<close> and \<open>imageResponse\<close> (\<open>None\<close> while unassigned). \<open>calls\<close> counts the
  calls of \<open>generateImage\<close> made so far; the result pairs the loop's outcome (a throw,
  or the last response and the usage) with that count.
\<close>

function image_loop ::
  "garden_env \<Rightarrow> BonsaiGardenTemplateData \<Rightarrow> string \<Rightarrow> string \<Rightarrow> string \<Rightarrow>
     nat \<Rightarrow> nat \<Rightarrow> TemplateUsage \<Rightarrow> image_result option \<Rightarrow>
     (js_error + image_result option \<times> TemplateUsage) \<times> nat" where
  "image_loop env td heroPersonality heroAction imageUrl attempts calls usage imageResponse =
     (if attempts < MAX_ATTEMPTS then
        (case heroText env calls heroPersonality heroAction imageUrl of
           Inl e \<Rightarrow> (Inl e, calls)
         | Inr (response, u) \<Rightarrow>
             (case heroImage env calls (hero_image_request td response) of
                Inl e \<Rightarrow> (Inl e, Suc calls)
              | Inr r \<Rightarrow>
                  if success r then (Inr (Some r, add_image (add_tokens usage u)), Suc calls)
                  else image_loop env td heroPersonality heroAction imageUrl (Suc attempts) (Suc calls)
                         (add_image (add_tokens usage u)) (Some r)))
      else (Inr (imageResponse, usage), calls))"
  by pat_completeness auto
termination
  by (relation "measure (\<lambda>(env, td, heroPersonality, heroAction, imageUrl, attempts, rest).
                  MAX_ATTEMPTS - attempts)") auto

declare image_loop.simps [simp del]

text \<open>The loop and the check after it: \<open>if (!imageResponse.success) throw ...\<close>.\<close>

definition hero_image ::
  "garden_env \<Rightarrow> BonsaiGardenTemplateData \<Rightarrow> string \<Rightarrow> string \<Rightarrow> string \<Rightarrow> TemplateUsage \<Rightarrow>
     js_error + image_result \<times> TemplateUsage" where
  "hero_image env td heroPersonality heroAction imageUrl usage =
     (case fst (image_loop env td heroPersonality heroAction imageUrl 0 0 usage None) of
        Inl e \<Rightarrow> Inl e
      | Inr (None, usage') \<Rightarrow>
          Inl (TypeError ''Cannot read properties of undefined (reading success)'')
      | Inr (Some imageResponse, usage') \<Rightarrow>
          if \<not> success imageResponse then
            Inl (Error ''Failed to generate hero image after multiple attempts'')
          else Inr (imageResponse, usage'))"

subsection \<open>The handler\<close>

text \<open>
  The staleness and engagement gate: \<open>None\<close> when the handler skips the update,
  the comments to evaluate otherwise.
\<close>

definition comments_to_evaluate ::
  "garden_env \<Rightarrow> BonsaiGardenTemplateData SmartMedia \<Rightarrow> BonsaiGardenTemplateData \<Rightarrow> bool \<Rightarrow>
     js_error + lens_comment list option" where
  "comments_to_evaluate env media td forceUpdate =
     (if isMediaStale env media \<or> forceUpdate then
        (case fetchAllCommentsFor env (postId media) of
           Inl e \<Rightarrow> Inl e
         | Inr allComments \<Rightarrow>
             (let comments = uniq_comments (getLatestComments env media allComments);
                  threshold =
                    (case minCommentUpdateThreshold td of
                       None \<Rightarrow> DEFAULT_MIN_ENGAGEMENT_UPDATE_THREHOLD
                     | Some t \<Rightarrow> if t = 0 then DEFAULT_MIN_ENGAGEMENT_UPDATE_THREHOLD else t)
              in if int (length comments) < threshold then Inr None else Inr (Some comments)))
      else Inr None)"

text \<open>The body of the handler's \<open>try\<close> block; \<open>Inl\<close> is a throw.\<close>

definition bonsaiGarden_try ::
  "garden_env \<Rightarrow> BonsaiGardenTemplateData SmartMedia \<Rightarrow> BonsaiGardenTemplateData \<Rightarrow> bool \<Rightarrow>
     js_error + BonsaiGardenTemplateData TemplateHandlerResponse" where
  "bonsaiGarden_try env media td forceUpdate =
     (case comments_to_evaluate env media td forceUpdate of
        Inl e \<Rightarrow> Inl e
      | Inr None \<Rightarrow> Inr (skip_response initial_usage)
      | Inr (Some comments) \<Rightarrow>
     (case fetchAllCollectorsFor env (postId media) of
        Inl e \<Rightarrow> Inl e
      | Inr allCollectors \<Rightarrow>
     (case commentsWeighted env media allCollectors comments of
        Inl e \<Rightarrow> Inl e
      | Inr weighted \<Rightarrow>
     (case resolveImage env (uri media) of
        Inl e \<Rightarrow> Inl e
      | Inr (imageUri, imageUrl) \<Rightarrow>
     (case topComment weighted of
        Inl e \<Rightarrow> Inl e
      | Inr topText \<Rightarrow>
     (case hero_image env td (fst (hero_traits (trim env) topText))
             (snd (hero_traits (trim env) topText)) imageUrl
             initial_usage of
        Inl e \<Rightarrow> Inl e
      | Inr (imageResponse, usage) \<Rightarrow>
     (case persistVersion env imageUri imageResponse of
        Inl e \<Rightarrow> Inl e
      | Inr versionUri \<Rightarrow>
          Inr \<lparr>preview = None, metadata = None, refreshMetadata = Some True,
               refreshCache = None, persistVersionUri = versionUri,
               updatedTemplateData = None, totalUsage = Some usage\<rparr>)))))))"

text \<open>
  \<open>bonsaiGarden.handler\<close>: \<open>None\<close> is \<open>undefined\<close>, returned without template data
  and after the \<open>catch\<close>, which only logs.
\<close>

definition bonsaiGarden_handler ::
  "garden_env \<Rightarrow> BonsaiGardenTemplateData SmartMedia option \<Rightarrow>
     BonsaiGardenTemplateData option \<Rightarrow> bool \<Rightarrow>
     BonsaiGardenTemplateData TemplateHandlerResponse option" where
  "bonsaiGarden_handler env media templateData' forceUpdate =
     (case media of
        None \<Rightarrow> None
      | Some m \<Rightarrow>
          (case templateData m of
             None \<Rightarrow> None
           | Some td \<Rightarrow>
               (case bonsaiGarden_try env m td forceUpdate of
                  Inl e \<Rightarrow> None
                | Inr r \<Rightarrow> Some r)))"

subsection \<open>An example post\<close>

text \<open>
  A comment by a collector, up-voted by a collector (twice) and by a non-collector; a
  post without a token and the same post with one; and collaborators whose image
  generation always fails.
\<close>

definition hero_comment :: lens_comment where
  "hero_comment =
     \<lparr>comment_id = ''c1'', author_address = ''0xa'', comment_content = ''brave | running''\<rparr>"

definition garden_data :: BonsaiGardenTemplateData where
  "garden_data =
     \<lparr>personality = ''kind'', action = ''resting'', td_modelId = None, td_stylePreset = None,
      minCommentUpdateThreshold = None\<rparr>"

definition garden_media :: "BonsaiGardenTemplateData SmartMedia" where
  "garden_media =
     \<lparr>agentId = ''agent-1'', creator = ''0xcreator'', template = BONSAI_GARDEN,
      category = BONSAI_GARDEN_CATEGORY, createdAt = 0, updatedAt = 0,
      templateData = Some garden_data, postId = ''post-1'', maxStaleTime = 3600,
      uri = ''lens://post-1'', token = None, versions = None, versionCount = None,
      canvas = None, status = None\<rparr>"

definition token_media :: "BonsaiGardenTemplateData SmartMedia" where
  "token_media = garden_media\<lparr>token := Some \<lparr>token_chain = BASE, token_address = ''0xtoken''\<rparr>\<rparr>"

text \<open>A trim for the examples, whose comments hold no white space but spaces.\<close>

definition trim_spaces :: "string \<Rightarrow> string" where
  "trim_spaces s =
     rev (dropWhile (\<lambda>c. c = CHR '' '') (rev (dropWhile (\<lambda>c. c = CHR '' '') s)))"

definition failing_image_env :: garden_env where
  "failing_image_env =
     \<lparr>isMediaStale = (\<lambda>m. True),
      fetchAllCommentsFor = (\<lambda>p. Inr [hero_comment]),
      getLatestComments = (\<lambda>m cs. cs),
      trim = trim_spaces,
      fetchAllCollectorsFor = (\<lambda>p. Inr [''0xa'', ''0xb'']),
      fetchAllUpvotersFor = (\<lambda>c. Inr [''0xb'', ''0xc'', ''0xb'']),
      balanceOfBatched = (\<lambda>ch vs t. Inr (map (\<lambda>v. if v = ''0xa'' then 5 else 20) vs)),
      getVoteWeightFromBalance = (\<lambda>b. if 10 \<le> b then 2 else 1),
      resolveImage = (\<lambda>u. Inr (''lens://image-1'', ''https://image-1'')),
      heroText = (\<lambda>n p a url.
         Inr (''a hero'', \<lparr>promptTokens = 10, completionTokens = 5, totalTokens = 15\<rparr>)),
      heroImage = (\<lambda>n d. Inr (image_failure (Msg ''Invalid response format from Venice AI''))),
      persistVersion = (\<lambda>u r. Inr (Some ''https://storj/version-0.json''))\<rparr>"



section \<open>BonsaiClient (client-bonsai/src/ClientService.ts)\<close>

text \<open>The arguments of one call of \<open>decrementCredits\<close>.\<close>

record debit =
  debit_creator :: string
  debit_model :: string
  debit_input :: nat
  debit_output :: nat
  debit_images :: nat
  debit_video :: "(string \<times> nat) option"
  debit_audio :: "nat option"
  debit_custom :: "(string \<times> LanguageModelUsage) list option"

text \<open>
  The state the service works on: the MongoDB \<open>media\<close> collection, one document
  per \<open>postId\<close>; the Redis keys \<open>post/<postId>\<close> (the cached JSON, as the record it
  parses to); the other Redis keys and their expiry in seconds; and three logs, in call
  order: the calls of \<open>decrementCredits\<close>, of \<open>refreshMetadataFor\<close>, and of a
  template's handler from \<open>handlePostUpdate\<close> (by post).
\<close>

record 'td world =
  mongo_media :: "string \<rightharpoonup> 'td SmartMedia"
  redis_posts :: "string \<rightharpoonup> 'td SmartMedia"
  redis_keys :: "string \<rightharpoonup> string"
  redis_expiry :: "string \<rightharpoonup> nat"
  debits :: "debit list"
  refreshes :: "string list"
  handler_runs :: "string list"

text \<open>
  What the service reads from its surroundings: the clock (\<open>Math.floor(Date.now() / 1000)\<close>),
  the registered templates, whether Lens reports the post deleted (\<open>fetchPostById\<close>),
  \<open>canUpdate\<close>, the status of the metadata refresh job of a post, the posts the task
  queue is processing, and two constants (utils/constants.ts, utils/apiCredits.ts).
\<close>

record 'td service_env =
  now :: int
  templates :: "TemplateName \<rightharpoonup> 'td Template"
  isDeleted :: "string \<Rightarrow> bool"
  canUpdate :: "string \<Rightarrow> TemplateName \<Rightarrow> bool"
  refreshMetadataStatus :: "string \<Rightarrow> string"
  isProcessing :: "string \<Rightarrow> bool"
  DEFAULT_FREEZE_TIME :: int
  DEFAULT_MODEL_ID :: string

text \<open>
  What \<open>handlePreviewCredits\<close> reads besides: two more constants of
  utils/constants.ts, and two built-in operations on strings, JavaScript's
  \<open>Number.parseInt\<close> (\<open>None\<close> for \<open>NaN\<close>) and the value Redis' \<open>INCR\<close> stores for
  an old value (\<open>None\<close> when it refuses the old value and leaves it).
\<close>

record preview_env =
  PREMIUM_TEMPLATES :: "TemplateName list"
  FREE_GENERATIONS_PER_HOUR :: int
  parseInt :: "string \<Rightarrow> int option"
  redis_incr :: "string \<Rightarrow> string option"

subsection \<open>Store operations\<close>

text \<open>
  \<open>getPost\<close>: the cached post, or else the document with the last ten versions.
\<close>

definition getPost :: "'td world \<Rightarrow> string \<Rightarrow> 'td SmartMedia option" where
  "getPost w pid =
     (case redis_posts w pid of
        Some res \<Rightarrow> Some res
      | None \<Rightarrow>
          map_option (\<lambda>doc. doc\<lparr>versions := map_option (\<lambda>vs. js_slice vs (- 10)) (versions doc)\<rparr>)
            (mongo_media w pid))"

definition cachePost :: "'td world \<Rightarrow> 'td SmartMedia \<Rightarrow> 'td world" where
  "cachePost w d = w\<lparr>redis_posts := (redis_posts w)(postId d \<mapsto> d)\<rparr>"

definition removePostFromCache :: "'td world \<Rightarrow> 'td SmartMedia \<Rightarrow> 'td world" where
  "removePostFromCache w d = w\<lparr>redis_posts := (redis_posts w)(postId d := None)\<rparr>"

text \<open>
  The update document of \<open>updateOne\<close>: an optional \<open>$push\<close> to \<open>versions\<close> and an
  optional \<open>$set\<close>, which sets either \<open>versionCount\<close> or \<open>status\<close>.
\<close>

datatype set_fields = SetVersionCount nat | SetStatus SmartMediaStatus

record update_doc =
  push_versions :: "string option"
  set_fields :: "set_fields option"

definition apply_update :: "update_doc \<Rightarrow> 'td SmartMedia \<Rightarrow> 'td SmartMedia" where
  "apply_update u doc =
     (let doc1 = (case push_versions u of
                    None \<Rightarrow> doc
                  | Some v \<Rightarrow>
                      doc\<lparr>versions :=
                            Some ((case versions doc of None \<Rightarrow> [] | Some vs \<Rightarrow> vs) @ [v])\<rparr>)
      in case set_fields u of
           None \<Rightarrow> doc1
         | Some (SetVersionCount n) \<Rightarrow> doc1\<lparr>versionCount := Some n\<rparr>
         | Some (SetStatus s) \<Rightarrow> doc1\<lparr>status := Some s\<rparr>)"

text \<open>\<open>mongo.media.updateOne({ postId }, update)\<close>: no document, no change.\<close>

definition updateOne :: "'td world \<Rightarrow> string \<Rightarrow> update_doc \<Rightarrow> 'td world" where
  "updateOne w pid u =
     (case mongo_media w pid of
        None \<Rightarrow> w
      | Some doc \<Rightarrow> w\<lparr>mongo_media := (mongo_media w)(pid \<mapsto> apply_update u doc)\<rparr>)"

definition set_status :: "'td world \<Rightarrow> string \<Rightarrow> SmartMediaStatus \<Rightarrow> 'td world" where
  "set_status w pid s = updateOne w pid \<lparr>push_versions = None, set_fields = Some (SetStatus s)\<rparr>"

text \<open>The call of \<open>decrementCredits\<close>, with the defaults of the call sites.\<close>

definition usage_debit :: "string \<Rightarrow> string \<Rightarrow> TemplateUsage option \<Rightarrow> debit" where
  "usage_debit who model u =
     \<lparr>debit_creator = who,
      debit_model = model,
      debit_input = (case u of None \<Rightarrow> 0 | Some x \<Rightarrow> promptTokens x),
      debit_output = (case u of None \<Rightarrow> 0 | Some x \<Rightarrow> completionTokens x),
      debit_images = (case u of None \<Rightarrow> 0 | Some x \<Rightarrow> or_zero (imagesCreated x)),
      debit_video = (case u of None \<Rightarrow> None | Some x \<Rightarrow> videoCostParams x),
      debit_audio = (case u of None \<Rightarrow> None | Some x \<Rightarrow> audioCharacters x),
      debit_custom = (case u of None \<Rightarrow> None | Some x \<Rightarrow> customTokens x)\<rparr>"

definition decrementCredits :: "'td world \<Rightarrow> debit \<Rightarrow> 'td world" where
  "decrementCredits w d = w\<lparr>debits := debits w @ [d]\<rparr>"

text \<open>The status the database holds for a post.\<close>

definition persisted_status :: "'td world \<Rightarrow> string \<Rightarrow> SmartMediaStatus option" where
  "persisted_status w pid = (case mongo_media w pid of None \<Rightarrow> None | Some doc \<Rightarrow> status doc)"

subsection \<open>handlePostUpdate\<close>

text \<open>
  The freeze of a post whose run gave nothing: \<open>FAILED\<close> and out of the cache once
  more than \<open>DEFAULT_FREEZE_TIME\<close> seconds have passed since \<open>updatedAt\<close>.
\<close>

definition freeze_if_overdue ::
  "'td service_env \<Rightarrow> 'td world \<Rightarrow> string \<Rightarrow> 'td SmartMedia \<Rightarrow> 'td world" where
  "freeze_if_overdue env w pid d =
     (if now env - updatedAt d > DEFAULT_FREEZE_TIME env then
        removePostFromCache (set_status w pid FAILED) d
      else w)"

text \<open>
  The update document built from \<open>needsStatusUpdate\<close> and \<open>hasNewVersion\<close>: the
  second assignment to \<open>update.$set\<close> replaces the first.
\<close>

definition version_update :: "'td SmartMedia \<Rightarrow> 'td TemplateHandlerResponse \<Rightarrow> update_doc" where
  "version_update d response =
     (let needsStatusUpdate = (status d = Some DISABLED \<or> status d = Some FAILED);
          hasNewVersion = nonempty (persistVersionUri response);
          update0 = \<lparr>push_versions = None, set_fields = None\<rparr>;
          update1 = (if hasNewVersion then
                       \<lparr>push_versions = persistVersionUri response,
                        set_fields = Some (SetVersionCount (or_zero (versionCount d) + 1))\<rparr>
                     else update0)
      in if needsStatusUpdate then update1\<lparr>set_fields := Some (SetStatus ACTIVE)\<rparr>
         else update1)"

text \<open>
  The rest of \<open>handlePostUpdate\<close> after a response that is neither missing nor
  without updates: the database update, the debit, the metadata refresh and the cache.
\<close>

definition apply_response ::
  "'td service_env \<Rightarrow> 'td world \<Rightarrow> string \<Rightarrow> 'td SmartMedia \<Rightarrow> 'td Template \<Rightarrow>
     'td TemplateHandlerResponse \<Rightarrow> 'td world" where
  "apply_response env w pid d tmpl response =
     (let needsStatusUpdate = (status d = Some DISABLED \<or> status d = Some FAILED);
          hasNewVersion = nonempty (persistVersionUri response);
          w1 = (if needsStatusUpdate \<or> hasNewVersion
                then updateOne w pid (version_update d response) else w);
          w2 = decrementCredits w1
                 (usage_debit (creator d)
                    (case defaultModel tmpl of
                       None \<Rightarrow> DEFAULT_MODEL_ID env
                     | Some m \<Rightarrow> if m = [] then DEFAULT_MODEL_ID env else m)
                    (totalUsage response))
      in if \<not> (present (metadata response) \<or> flag (refreshMetadata response))
            \<and> \<not> flag (refreshCache response) then w2
         else
           (let refresh = (present (metadata response) \<or> flag (refreshMetadata response));
                w3 = (if refresh then w2\<lparr>refreshes := refreshes w2 @ [pid]\<rparr> else w2)
            in if refresh \<and> refreshMetadataStatus env pid = ''FAILED'' then
                 set_status w3 pid FAILED
               else
                 cachePost w3
                   (d\<lparr>templateData :=
                         (case updatedTemplateData response of
                            None \<Rightarrow> templateData d
                          | Some t \<Rightarrow> Some t),
                       updatedAt := now env,
                       versions := None,
                       versionCount := Some (or_zero (versionCount d) + 1),
                       status := None\<rparr>)))"

text \<open>
  \<open>handlePostUpdate\<close>: the state it leaves, and the value it throws, if any (a throw
  of the handler, or the \<open>TypeError\<close> of reading \<open>totalUsage.promptTokens\<close> on a
  response without \<open>totalUsage\<close>).
\<close>

definition handlePostUpdate ::
  "'td service_env \<Rightarrow> 'td world \<Rightarrow> string \<Rightarrow> bool \<Rightarrow> 'td world \<times> js_error option" where
  "handlePostUpdate env w pid forceUpdate =
     (case getPost w pid of
        None \<Rightarrow> (w, None)
      | Some d \<Rightarrow>
     (case templates env (template d) of
        None \<Rightarrow> (w, None)
      | Some tmpl \<Rightarrow>
          if isDeleted env pid then
            (removePostFromCache (set_status w pid DISABLED) d, None)
          else if \<not> canUpdate env (creator d) (template d) then (w, None)
          else
            (let w1 = w\<lparr>handler_runs := handler_runs w @ [pid]\<rparr>
             in case handler tmpl (Some d) None forceUpdate of
                  Inl e \<Rightarrow> (w1, Some e)
                | Inr None \<Rightarrow> (freeze_if_overdue env w1 pid d, None)
                | Inr (Some response) \<Rightarrow>
                    if flag (refreshMetadata response) then
                      (apply_response env w1 pid d tmpl response, None)
                    else
                      (case totalUsage response of
                         None \<Rightarrow>
                           (w1, Some (TypeError
                              ''Cannot read properties of undefined (reading promptTokens)''))
                       | Some u \<Rightarrow>
                           if promptTokens u = 0 \<and> imagesCreated u = Some 0
                              \<and> videosCreated u = Some 0
                           then (freeze_if_overdue env w1 pid d, None)
                           else (apply_response env w1 pid d tmpl response, None)))))"

subsection \<open>The update and disable routes\<close>

record update_request =
  req_postId :: string
  req_forceUpdate :: bool
  req_user :: "string option"

text \<open>
  The outcome of \<open>POST /post/:postId/update\<close>: an HTTP status alone, or status 200
  after \<open>tasks.add(postId, () => handlePostUpdate(postId, forceUpdate))\<close>.
\<close>

datatype route_result = Status nat | Enqueued string bool

definition post_update_route ::
  "'td service_env \<Rightarrow> 'td world \<Rightarrow> update_request \<Rightarrow> route_result" where
  "post_update_route env w req =
     (if isProcessing env (req_postId req) then Status 204
      else (case getPost w (req_postId req) of
              None \<Rightarrow> Status 404
            | Some d \<Rightarrow>
                if req_forceUpdate req \<and> Some (creator d) \<noteq> req_user req then Status 401
                else if \<not> canUpdate env (creator d) (template d) then Status 403
                else Enqueued (req_postId req) (req_forceUpdate req)))"

text \<open>\<open>POST /post/:postId/disable\<close>: the state it leaves and the HTTP status.\<close>

definition post_disable_route ::
  "'td world \<Rightarrow> string \<Rightarrow> string option \<Rightarrow> 'td world \<times> nat" where
  "post_disable_route w pid user =
     (case getPost w pid of
        None \<Rightarrow> (w, 404)
      | Some d \<Rightarrow>
          if Some (creator d) \<noteq> user then (w, 401)
          else (removePostFromCache (set_status w pid DISABLED) d, 200))"

subsection \<open>handlePreviewCredits\<close>

text \<open>
  \<open>previewCount && Number.parseInt(previewCount) < FREE_GENERATIONS_PER_HOUR\<close>: a
  missing key (\<open>null\<close>) and an empty string are falsy, and \<open>NaN\<close> is below nothing.
\<close>

definition below_free_cap :: "preview_env \<Rightarrow> string option \<Rightarrow> bool" where
  "below_free_cap penv previewCount =
     (case previewCount of
        None \<Rightarrow> False
      | Some s \<Rightarrow>
          s \<noteq> [] \<and> (case parseInt penv s of None \<Rightarrow> False
                     | Some n \<Rightarrow> n < FREE_GENERATIONS_PER_HOUR penv))"

text \<open>The \<open>MULTI\<close> of \<open>INCR\<close> and \<open>EXPIRE\<close> on the counter of the hour.\<close>

definition count_free_preview :: "preview_env \<Rightarrow> 'td world \<Rightarrow> string \<Rightarrow> 'td world" where
  "count_free_preview penv w previewKey =
     w\<lparr>redis_keys :=
         (case redis_keys w previewKey of
            None \<Rightarrow> redis_keys w
          | Some s \<Rightarrow>
              (case redis_incr penv s of
                 None \<Rightarrow> redis_keys w
               | Some s' \<Rightarrow> (redis_keys w)(previewKey \<mapsto> s'))),
       redis_expiry := (redis_expiry w)(previewKey \<mapsto> 3600)\<rparr>"

definition handlePreviewCredits ::
  "'td service_env \<Rightarrow> preview_env \<Rightarrow> 'td world \<Rightarrow> TemplateName \<Rightarrow> string \<Rightarrow>
     TemplateUsage option \<Rightarrow> string option \<Rightarrow> 'td world" where
  "handlePreviewCredits env penv w templateName who usage model =
     (let previewKey = ''create_preview_count:'' @ who;
          paid = decrementCredits w
                   (usage_debit who
                      (case model of
                         None \<Rightarrow> DEFAULT_MODEL_ID env
                       | Some m \<Rightarrow> if m = [] then DEFAULT_MODEL_ID env else m)
                      usage)
      in if templateName \<notin> set (PREMIUM_TEMPLATES penv) then
           (if below_free_cap penv (redis_keys w previewKey)
            then count_free_preview penv w previewKey
            else paid)
         else paid)"

text \<open>A run of preview requests of one creator, each with the same usage.\<close>

fun previews ::
  "'td service_env \<Rightarrow> preview_env \<Rightarrow> 'td world \<Rightarrow> TemplateName \<Rightarrow> string \<Rightarrow>
     TemplateUsage option \<Rightarrow> string option \<Rightarrow> nat \<Rightarrow> 'td world" where
  "previews env penv w templateName who usage model 0 = w"
| "previews env penv w templateName who usage model (Suc n) =
     previews env penv (handlePreviewCredits env penv w templateName who usage model)
       templateName who usage model n"

subsection \<open>An example service\<close>

text \<open>
  The garden template over given collaborators; a service at a given time that has it
  registered, with a freeze time of three days; and a store that holds one post as a
  document only (not cached), with a given status, three versions and the count 3.
\<close>

definition bonsaiGarden_template :: "garden_env \<Rightarrow> BonsaiGardenTemplateData Template" where
  "bonsaiGarden_template genv =
     \<lparr>handler = (\<lambda>media td forceUpdate. Inr (bonsaiGarden_handler genv media td forceUpdate)),
      template_name = BONSAI_GARDEN,
      defaultModel = None\<rparr>"

definition garden_service :: "garden_env \<Rightarrow> int \<Rightarrow> BonsaiGardenTemplateData service_env" where
  "garden_service genv t =
     \<lparr>now = t,
      templates = [BONSAI_GARDEN \<mapsto> bonsaiGarden_template genv],
      isDeleted = (\<lambda>p. False),
      canUpdate = (\<lambda>c n. True),
      refreshMetadataStatus = (\<lambda>p. ''FINISHED''),
      isProcessing = (\<lambda>p. False),
      DEFAULT_FREEZE_TIME = 259200,
      DEFAULT_MODEL_ID = ''gpt-4o''\<rparr>"

definition stored_post :: "SmartMediaStatus \<Rightarrow> BonsaiGardenTemplateData SmartMedia" where
  "stored_post s =
     garden_media\<lparr>versions := Some [''v0'', ''v1'', ''v2''], versionCount := Some 3,
                  status := Some s\<rparr>"

definition garden_world :: "SmartMediaStatus \<Rightarrow> BonsaiGardenTemplateData world" where
  "garden_world s =
     \<lparr>mongo_media = [''post-1'' \<mapsto> stored_post s],
      redis_posts = Map.empty,
      redis_keys = Map.empty,
      redis_expiry = Map.empty,
      debits = [],
      refreshes = [],
      handler_runs = []\<rparr>"

text \<open>
  Collaborators under which the post is not stale; collaborators whose image generation
  works, with and without a stored version.
\<close>

text \<open>The usage of one text generation and one image in the examples.\<close>

definition hero_usage :: TemplateUsage where
  "hero_usage =
     \<lparr>promptTokens = 10, completionTokens = 5, totalTokens = 15,
      imagesCreated = Some 1, videosCreated = None, videoCostParams = None,
      audioCharacters = None, customTokens = None\<rparr>"

definition quiet_env :: garden_env where
  "quiet_env = failing_image_env\<lparr>isMediaStale := (\<lambda>m. False)\<rparr>"

definition working_env :: garden_env where
  "working_env =
     failing_image_env\<lparr>heroImage := (\<lambda>n d. Inr (image_success [''data:image/png;base64,QUJD'']))\<rparr>"

definition unversioned_env :: garden_env where
  "unversioned_env = working_env\<lparr>persistVersion := (\<lambda>u r. Inr None)\<rparr>"

section \<open>Properties of trimTokens\<close>

lemma js_slice_neg: "0 < n \<Longrightarrow> js_slice xs (- n) = last_elems (nat n) xs"
  by (auto simp: js_slice_def last_elems_def Let_def max_def nat_diff_distrib'
      intro: arg_cong[where f="\<lambda>k. drop k xs"])

lemma trimTokens_model:
  "context \<noteq> [] \<Longrightarrow> 0 < maxTokens \<Longrightarrow>
   trimTokens env context maxTokens =
     Inr (truncateTiktoken (encodingForModel env) (configured_model env) context maxTokens)"
  by (simp add: trimTokens_def configured_model_def)

lemma trimTokens_rejects_nonpositive:
  "context \<noteq> [] \<Longrightarrow> maxTokens \<le> 0 \<Longrightarrow>
   trimTokens env context maxTokens = Inl (Error ''maxTokens must be positive'')"
  by (simp add: trimTokens_def)

text \<open>
  Claim C9, as the code has it. For a positive \<open>maxTokens\<close>: a non-empty context whose
  token count under the tokenizer in use exceeds \<open>maxTokens\<close> is replaced by the decoding
  of its last \<open>maxTokens\<close> tokens; a context of at most \<open>maxTokens\<close> tokens is returned
  unchanged; and when the tokenizer throws (no encoding for the model, or \<open>encode\<close> or
  \<open>decode\<close> throws) the result is the last \<open>maxTokens * 4\<close> characters of the context.
  (The empty context is returned as the empty string before any tokenization.)
\<close>

theorem trimTokens_positive_limit:
  assumes pos: "0 < maxTokens"
  shows "(context \<noteq> [] \<and> encodingForModel env (configured_model env) = Inr enc \<and>
          encode enc context = Inr tokens \<and> int (length tokens) > maxTokens \<and>
          decode enc (last_elems (nat maxTokens) tokens) = Inr s
            \<longrightarrow> trimTokens env context maxTokens = Inr s)
       \<and> (encodingForModel env (configured_model env) = Inr enc \<and>
          encode enc context = Inr tokens \<and> int (length tokens) \<le> maxTokens
            \<longrightarrow> trimTokens env context maxTokens = Inr context)
       \<and> (tiktoken_truncate (encodingForModel env) (configured_model env) context maxTokens = Inl e
            \<longrightarrow> trimTokens env context maxTokens = Inr (last_elems (nat (maxTokens * 4)) context))"
proof (cases "context = []")
  case True
  then show ?thesis by (simp add: trimTokens_def last_elems_def)
next
  case False
  have 4: "- maxTokens * 4 = - (maxTokens * 4)" by simp
  from pos have p4: "0 < maxTokens * 4" by simp
  show ?thesis
    using False pos
    by (auto simp: trimTokens_model truncateTiktoken_def tiktoken_truncate_def js_slice_neg
        4 js_slice_neg[OF p4])
qed

lemma encode_hello: "map of_char ''hello'' = [104, 101, 108, 108, 111 :: nat]"
  by code_simp

lemma decode_lo: "map char_of [108, 111 :: nat] = ''lo''"
  by code_simp

theorem trimTokens_positive_limit_witness:
  "trimTokens char_env ''hello'' 2 = Inr ''lo''"
proof -
  have m: "encodingForModel char_env (configured_model char_env) = Inr char_encoding"
    by (simp add: char_env_def)
  have e: "encode char_encoding ''hello'' = Inr [104, 101, 108, 108, 111]"
    using encode_hello by (simp add: char_encoding_def)
  have d: "decode char_encoding (last_elems (nat 2) [104, 101, 108, 108, 111]) = Inr ''lo''"
    using decode_lo by (simp add: char_encoding_def last_elems_def)
  from trimTokens_positive_limit [of 2 "''hello''" char_env char_encoding
      "[104, 101, 108, 108, 111]" "''lo''"] m e d
  show ?thesis by simp
qed

text \<open>
  With the limit 0 the context \<open>ab\<close> has more tokens (two) than the limit, and the
  decoding of its last 0 tokens is the empty string, yet \<open>trimTokens\<close> returns
  nothing: it throws.
\<close>

theorem trimTokens_zero_limit_throws:
  "encodingForModel char_env (configured_model char_env) = Inr char_encoding \<and>
   encode char_encoding ''ab'' = Inr [97, 98] \<and>
   int (length [97 :: nat, 98]) > 0 \<and>
   decode char_encoding (last_elems (nat 0) [97, 98]) = Inr [] \<and>
   trimTokens char_env ''ab'' 0 = Inl (Error ''maxTokens must be positive'')"
  by (simp add: trimTokens_def char_env_def char_encoding_def configured_model_def
      falsy_setting_def last_elems_def)

section \<open>Properties of generateObjectDeprecated\<close>

lemma retry_loop_fail_step:
  "attempt_failed (attempt n) \<Longrightarrow>
   retry_loop attempt n d waits = retry_loop attempt (Suc n) (d * 2) (waits @ [d])"
  by (subst retry_loop.simps) (auto simp: attempt_failed_def split: sum.splits option.splits)

lemma retry_loop_success_step:
  "attempt n = Inr (Some r) \<Longrightarrow> retry_loop attempt n d waits = Some (r, waits)"
  by (subst retry_loop.simps) simp

lemma retry_loop_succeeds_after:
  "(\<And>i. i < k \<Longrightarrow> attempt_failed (attempt (n + i))) \<Longrightarrow> attempt (n + k) = Inr (Some r) \<Longrightarrow>
   retry_loop attempt n d waits = Some (r, waits @ map (\<lambda>i. d * 2 ^ i) [0..<k])"
proof (induction k arbitrary: n d waits)
  case 0
  then show ?case by (simp add: retry_loop_success_step)
next
  case (Suc k)
  have f0: "attempt_failed (attempt n)" using Suc.prems(1)[of 0] by simp
  have "retry_loop attempt (Suc n) (d * 2) (waits @ [d]) =
          Some (r, (waits @ [d]) @ map (\<lambda>i. (d * 2) * 2 ^ i) [0..<k])"
  proof (rule Suc.IH)
    fix i assume "i < k"
    then show "attempt_failed (attempt (Suc n + i))" using Suc.prems(1)[of "Suc i"] by simp
  next
    show "attempt (Suc n + k) = Inr (Some r)" using Suc.prems(2) by simp
  qed
  moreover have "map (\<lambda>i. d * 2 ^ i) [0..<Suc k] = d # map (\<lambda>i. (d * 2) * 2 ^ i) [0..<k]"
    by (simp add: upt_conv_Cons map_Suc_upt[symmetric] del: upt_Suc)
  ultimately show ?case using f0 by (simp add: retry_loop_fail_step del: upt_Suc)
qed

lemma retry_loop_returns_only_on_success:
  assumes "retry_loop attempt n d waits = Some y"
  shows "\<exists>k. \<not> attempt_failed (attempt (n + k))"
proof (rule retry_loop.raw_induct
    [where P = "\<lambda>a n d w y. \<exists>k. \<not> attempt_failed (a (n + k))", OF _ assms])
  fix loop :: "(nat \<Rightarrow> js_error + 'a option) \<Rightarrow> nat \<Rightarrow> nat \<Rightarrow> nat list \<Rightarrow> ('a \<times> nat list) option"
  fix a n d w y
  assume IH: "\<And>a n d w y. loop a n d w = Some y \<Longrightarrow> \<exists>k. \<not> attempt_failed (a (n + k))"
  assume body: "(case a n of
      Inl e \<Rightarrow> loop a (Suc n) (d * 2) (w @ [d])
    | Inr None \<Rightarrow> loop a (Suc n) (d * 2) (w @ [d])
    | Inr (Some r) \<Rightarrow> Some (r, w)) = Some y"
  show "\<exists>k. \<not> attempt_failed (a (n + k))"
  proof (cases "attempt_failed (a n)")
    case True
    with body have "loop a (Suc n) (d * 2) (w @ [d]) = Some y"
      by (auto simp: attempt_failed_def split: sum.splits option.splits)
    from IH[OF this] obtain k where "\<not> attempt_failed (a (Suc n + k))" by blast
    then have "\<not> attempt_failed (a (n + Suc k))" by simp
    then show ?thesis by blast
  next
    case False
    then have "\<not> attempt_failed (a (n + 0))" by simp
    then show ?thesis by blast
  qed
qed

lemma retry_loop_never_gives_up:
  "(\<And>i. attempt_failed (attempt i)) \<Longrightarrow> retry_loop attempt n d waits = None"
  using retry_loop_returns_only_on_success [of attempt n d waits] by (cases "retry_loop attempt n d waits") auto

lemma sum_list_doubling_add:
  "sum_list (map (\<lambda>i. d * 2 ^ i) [0..<k]) + d = d * 2 ^ k" for d :: nat
  by (induction k) simp_all

lemma sum_list_doubling:
  "sum_list (map (\<lambda>i. d * 2 ^ i) [0..<k]) = d * (2 ^ k - 1)" for d :: nat
  using sum_list_doubling_add [of d k] by (simp add: diff_mult_distrib2)

text \<open>
  Claim C6. A call with a non-empty context (or a non-empty message list) whose first
  \<open>k\<close> passes fail, by a provider error or an unparsed response, and whose next pass
  parses, returns the parsed object after exactly \<open>k\<close> waits of 1000, 2000, 4000, ...
  milliseconds: \<open>1000 * 2 ^ i\<close> after the \<open>i\<close>-th failure, \<open>1000 * (2 ^ k - 1)\<close>
  in total, for every \<open>k\<close>; and a call whose every pass fails never returns.
\<close>

theorem generateObjectDeprecated_backoff:
  assumes "req_context req \<noteq> [] \<or> (\<exists>m ms. messages req = Some (m # ms))"
  shows "((\<forall>i<k. attempt_failed (object_attempt env req i)) \<and>
          object_attempt env req k = Inr (Some r) \<longrightarrow>
            generateObjectDeprecated env req =
              Some (Inr (Some r, map (\<lambda>i. 1000 * 2 ^ i) [0..<k])) \<and>
            sum_list (map (\<lambda>i. 1000 * 2 ^ i) [0..<k]) = (1000 :: nat) * (2 ^ k - 1))
       \<and> ((\<forall>i. attempt_failed (object_attempt env req i)) \<longrightarrow>
            generateObjectDeprecated env req = None)"
proof (intro conjI impI)
  assume h: "(\<forall>i<k. attempt_failed (object_attempt env req i)) \<and>
             object_attempt env req k = Inr (Some r)"
  have "retry_loop (object_attempt env req) 0 1000 [] =
          Some (r, [] @ map (\<lambda>i. 1000 * 2 ^ i) [0..<k])"
    by (rule retry_loop_succeeds_after) (use h in auto)
  with assms show "generateObjectDeprecated env req =
      Some (Inr (Some r, map (\<lambda>i. 1000 * 2 ^ i) [0..<k]))"
    by (auto simp: generateObjectDeprecated_def)
  show "sum_list (map (\<lambda>i. 1000 * 2 ^ i) [0..<k]) = (1000 :: nat) * (2 ^ k - 1)"
    by (rule sum_list_doubling)
next
  assume "\<forall>i. attempt_failed (object_attempt env req i)"
  then have "retry_loop (object_attempt env req) 0 1000 [] = None"
    by (intro retry_loop_never_gives_up) simp
  with assms show "generateObjectDeprecated env req = None"
    by (auto simp: generateObjectDeprecated_def)
qed

theorem generateObjectDeprecated_backoff_witness:
  "generateObjectDeprecated third_time_env decision_request =
     Some (Inr (Some (''{}'', None), [1000, 2000])) \<and>
   sum_list [1000, 2000 :: nat] = 3000"
proof -
  have a: "\<forall>i<2. attempt_failed (object_attempt third_time_env decision_request i)"
    by (simp add: attempt_failed_def object_attempt_def third_time_env_def decision_request_def)
  have b: "object_attempt third_time_env decision_request 2 = Inr (Some (''{}'', None))"
    by (simp add: object_attempt_def third_time_env_def decision_request_def)
  have c: "req_context decision_request \<noteq> [] \<or>
           (\<exists>m ms. messages decision_request = Some (m # ms))"
    by (simp add: decision_request_def)
  have d: "map (\<lambda>i. 1000 * 2 ^ i) [0..<2] = [1000, 2000::nat]" by (simp add: upt_rec)
  from generateObjectDeprecated_backoff
         [of decision_request 2 third_time_env "(''{}'', None)", OF c] a b d
  show ?thesis by simp
qed

section \<open>Properties of generateImage\<close>

lemma to_data_uris_Inr:
  "to_data_uris ts xs = Inr ys \<Longrightarrow>
     ys = map (\<lambda>x. ''data:image/png;base64,'' @ interpolate ts x) xs \<and> list_all truthy xs"
  by (induction xs arbitrary: ys) (auto split: if_splits sum.splits)

lemma to_data_uris_Inl:
  "to_data_uris ts xs = Inl e \<Longrightarrow> \<not> list_all truthy xs"
  by (induction xs) (auto split: if_splits sum.splits)

lemma venice_call_success:
  assumes "venice_call env ts apiKey body = Inr r" and "success r"
  shows "\<exists>response result imgs.
           fetch env ''https://api.venice.ai/api/v1/image/generate'' (''Bearer '' @ apiKey) body
             = Inr response \<and>
           json_body response = Inr result \<and>
           get_prop result ''images'' = Inr (Some (JArr imgs)) \<and>
           list_all truthy imgs \<and>
           r = image_success (map (\<lambda>x. ''data:image/png;base64,'' @ interpolate ts x) imgs)"
  using assms unfolding venice_call_def image_failure_def
  by (auto split: sum.splits option.splits json.splits if_splits dest!: to_data_uris_Inr)

lemma venice_call_failure:
  assumes "venice_call env ts apiKey body = Inr r" and "\<not> success r"
  shows "\<exists>e. r = image_failure e"
  using assms unfolding venice_call_def image_success_def
  by (auto split: sum.splits option.splits json.splits if_splits)

text \<open>
  Claim C10. \<open>generateImage\<close> never throws: for every environment and input it
  returns a result. A result with \<open>success = true\<close> arises only when the model settings
  and a non-empty API key exist, \<open>fetch\<close> is available and resolves, the response body
  parses, its \<open>images\<close> property is an array and no element of it is empty; its
  \<open>data\<close> is then the list of those images, each prefixed to a PNG base64 data URI.
  Every other path returns \<open>success = false\<close> with an \<open>error\<close> and no \<open>data\<close>.
\<close>

theorem generateImage_total:
  "\<exists>r. generateImage env ts d = Inr r \<and>
     (if success r
      then (\<exists>model apiKey response result imgs.
              imageModelSettings env = Some model \<and>
              VENICE_API_KEY env = Inr (Some apiKey) \<and> apiKey \<noteq> [] \<and>
              fetch_is_function env \<and>
              fetch env ''https://api.venice.ai/api/v1/image/generate'' (''Bearer '' @ apiKey)
                (venice_request_body d model) = Inr response \<and>
              json_body response = Inr result \<and>
              get_prop result ''images'' = Inr (Some (JArr imgs)) \<and>
              list_all truthy imgs \<and>
              r = image_success (map (\<lambda>x. ''data:image/png;base64,'' @ interpolate ts x) imgs))
      else (\<exists>e. r = image_failure e))"
proof -
  let ?P = "\<lambda>r. generateImage env ts d = Inr r \<and> \<not> success r \<and> (\<exists>e. r = image_failure e)"
  have fail: "\<And>r. ?P r \<Longrightarrow> ?thesis" by auto
  show ?thesis
  proof (cases "imageModelSettings env")
    case None
    then have "?P (image_failure (Msg ''No model settings available''))"
      by (auto simp: generateImage_def image_failure_def)
    then show ?thesis by (rule fail)
  next
    case (Some model)
    show ?thesis
    proof (cases "\<exists>apiKey. VENICE_API_KEY env = Inr (Some apiKey) \<and> apiKey \<noteq> [] \<and> fetch_is_function env")
      case False
      with Some have "\<exists>m. ?P (image_failure (Msg m))"
        by (auto simp: generateImage_def image_failure_def split: sum.splits option.splits)
      then show ?thesis using fail by blast
    next
      case True
      then obtain apiKey where k: "VENICE_API_KEY env = Inr (Some apiKey)" "apiKey \<noteq> []"
        "fetch_is_function env" by blast
      show ?thesis
      proof (cases "venice_call env ts apiKey (venice_request_body d model)")
        case (Inl e)
        with Some k have "?P (image_failure (Caught e))"
          by (simp add: generateImage_def image_failure_def)
        then show ?thesis by (rule fail)
      next
        case (Inr r)
        with Some k have g: "generateImage env ts d = Inr r"
          by (simp add: generateImage_def)
        show ?thesis
        proof (cases "success r")
          case True
          from venice_call_success [OF Inr True] Some k g True show ?thesis by auto
        next
          case False
          from venice_call_failure [OF Inr False] g False show ?thesis by auto
        qed
      qed
    qed
  qed
qed

theorem generateImage_total_witness:
  "\<exists>r. generateImage image_env_ok (\<lambda>v. []) hero_image_data = Inr r \<and> success r \<and>
       data r = Some [''data:image/png;base64,QUJD'']"
  using generateImage_total [of image_env_ok "\<lambda>v. []" hero_image_data]
  by (simp add: generateImage_def venice_call_def image_success_def image_env_ok_def
      hero_image_data_def)

section \<open>Properties of the weighted votes\<close>

lemma set_uniq_from: "set (uniq_from seen xs) = set xs - set seen"
  by (induction xs arbitrary: seen) auto

lemma distinct_uniq_from: "distinct (uniq_from seen xs)"
  by (induction xs arbitrary: seen) (auto simp: set_uniq_from)

lemma set_qualifying_voters:
  "set (qualifying_voters cs ups a) = insert a (set ups) \<inter> set cs"
  by (auto simp: qualifying_voters_def uniq_def set_uniq_from)

lemma distinct_qualifying_voters: "distinct (qualifying_voters cs ups a)"
  by (simp add: qualifying_voters_def uniq_def distinct_uniq_from)

lemma length_qualifying_voters:
  "length (qualifying_voters cs ups a) = card (insert a (set ups) \<inter> set cs)"
  using distinct_card [OF distinct_qualifying_voters, of cs ups a]
  by (simp add: set_qualifying_voters)

lemma foldl_add_weights:
  "foldl (\<lambda>acc b. acc + f b) z bs = z + sum_list (map f bs)" for z :: int
  by (induction bs arbitrary: z) simp_all

lemma sum_weights_voters:
  "sum_list (map f (qualifying_voters cs ups a)) = sum f (insert a (set ups) \<inter> set cs)"
  for f :: "string \<Rightarrow> int"
  using sum_list_distinct_conv_sum_set [OF distinct_qualifying_voters, of f cs ups a]
  by (simp add: set_qualifying_voters)

lemma filter_Cons_first_index:
  assumes "filter P xs = w # r"
  shows "\<exists>i<length xs. xs ! i = w \<and> (\<forall>j<i. \<not> P (xs ! j))"
proof -
  from assms obtain us vs where x: "xs = us @ w # vs" and u: "\<forall>u\<in>set us. \<not> P u"
    by (auto simp: filter_eq_Cons_iff)
  have "length us < length xs" "xs ! length us = w" using x by auto
  moreover have "\<forall>j<length us. \<not> P (xs ! j)"
    using u x by (auto simp: nth_append)
  ultimately show ?thesis by blast
qed

lemma topComment_first_max:
  assumes "ws \<noteq> []"
  shows "\<exists>i<length ws. topComment ws = Inr (content (ws ! i)) \<and>
           (\<forall>j<length ws. votes (ws ! j) \<le> votes (ws ! i)) \<and>
           (\<forall>j<i. votes (ws ! j) < votes (ws ! i))"
proof -
  let ?k = "\<lambda>w. - votes w"
  let ?s = "sort_key ?k ws"
  from assms have "?s \<noteq> []" by (metis length_0_conv length_sort)
  then obtain w rest where s: "?s = w # rest" by (cases ?s) auto
  have sorted: "sorted (map ?k ?s)" by (rule sorted_sort_key)
  have mem: "set ?s = set ws" by simp
  have top: "topComment ws = Inr (content w)"
    by (simp add: topComment_def orderBy_votes_desc_def s)
  have max: "\<forall>x\<in>set ws. votes x \<le> votes w"
  proof
    fix x assume "x \<in> set ws"
    then have "x \<in> set (w # rest)" using mem s by simp
    with sorted s show "votes x \<le> votes w" by auto
  qed
  have "filter (\<lambda>y. ?k y = ?k w) ws = filter (\<lambda>y. ?k y = ?k w) ?s"
    by (rule sort_key_stable [symmetric])
  also have "\<dots> = w # filter (\<lambda>y. ?k y = ?k w) rest" by (simp add: s)
  finally have f: "filter (\<lambda>y. ?k y = ?k w) ws = w # filter (\<lambda>y. ?k y = ?k w) rest" .
  from filter_Cons_first_index [OF f]
  obtain i where i: "i < length ws" "ws ! i = w" "\<forall>j<i. votes (ws ! j) \<noteq> votes w"
    by auto
  have "\<forall>j<i. votes (ws ! j) < votes (ws ! i)"
  proof (intro allI impI)
    fix j assume j: "j < i"
    with i have "votes (ws ! j) \<noteq> votes w" by auto
    moreover have "votes (ws ! j) \<le> votes w" using max j i(1) by simp
    ultimately show "votes (ws ! j) < votes (ws ! i)" using i(2) by simp
  qed
  moreover have "\<forall>j<length ws. votes (ws ! j) \<le> votes (ws ! i)"
    using max i(2) by simp
  ultimately show ?thesis using top i by blast
qed

lemma comment_weight:
  "set (qualifying_voters cs ups (author_address c)) = insert (author_address c) (set ups) \<inter> set cs
   \<and> distinct (qualifying_voters cs ups (author_address c))
   \<and> (fetchAllUpvotersFor env (comment_id c) = Inr ups \<and> no_token media \<longrightarrow>
        commentWeighted env media cs c =
          Inr \<lparr>content = comment_content c,
               votes = int (card (insert (author_address c) (set ups) \<inter> set cs))\<rparr>)
   \<and> (fetchAllUpvotersFor env (comment_id c) = Inr ups \<and>
        token media = Some t \<and> token_address t \<noteq> [] \<and>
        balanceOfBatched env (if token_chain t = BASE then base else LENS_CHAIN)
          (qualifying_voters cs ups (author_address c)) (token_address t) =
            Inr (map balanceOf (qualifying_voters cs ups (author_address c))) \<longrightarrow>
        commentWeighted env media cs c =
          Inr \<lparr>content = comment_content c,
               votes = (\<Sum>v \<in> insert (author_address c) (set ups) \<inter> set cs.
                          getVoteWeightFromBalance env (balanceOf v))\<rparr>)"
proof (intro conjI impI)
  show "set (qualifying_voters cs ups (author_address c)) =
          insert (author_address c) (set ups) \<inter> set cs"
    by (rule set_qualifying_voters)
  show "distinct (qualifying_voters cs ups (author_address c))"
    by (rule distinct_qualifying_voters)
next
  assume "fetchAllUpvotersFor env (comment_id c) = Inr ups \<and> no_token media"
  then show "commentWeighted env media cs c =
      Inr \<lparr>content = comment_content c,
           votes = int (card (insert (author_address c) (set ups) \<inter> set cs))\<rparr>"
    by (auto simp: commentWeighted_def no_token_def length_qualifying_voters
        split: option.splits)
next
  assume h: "fetchAllUpvotersFor env (comment_id c) = Inr ups \<and>
        token media = Some t \<and> token_address t \<noteq> [] \<and>
        balanceOfBatched env (if token_chain t = BASE then base else LENS_CHAIN)
          (qualifying_voters cs ups (author_address c)) (token_address t) =
            Inr (map balanceOf (qualifying_voters cs ups (author_address c)))"
  have "sum_list (map (getVoteWeightFromBalance env)
           (map balanceOf (qualifying_voters cs ups (author_address c)))) =
        (\<Sum>v \<in> insert (author_address c) (set ups) \<inter> set cs.
            getVoteWeightFromBalance env (balanceOf v))"
    using sum_weights_voters [of "\<lambda>v. getVoteWeightFromBalance env (balanceOf v)" cs ups
        "author_address c"]
    by (simp add: comp_def)
  with h show "commentWeighted env media cs c =
      Inr \<lparr>content = comment_content c,
           votes = (\<Sum>v \<in> insert (author_address c) (set ups) \<inter> set cs.
                      getVoteWeightFromBalance env (balanceOf v))\<rparr>"
    by (simp add: commentWeighted_def Let_def foldl_add_weights)
qed

lemma token_weight_example:
  "commentWeighted failing_image_env token_media [''0xa'', ''0xb''] hero_comment =
     Inr \<lparr>content = ''brave | running'', votes = 3\<rparr>
   \<and> commentWeighted failing_image_env garden_media [''0xa'', ''0xb''] hero_comment =
     Inr \<lparr>content = ''brave | running'', votes = 2\<rparr>
   \<and> commentWeighted failing_image_env garden_media [] hero_comment =
     Inr \<lparr>content = ''brave | running'', votes = 0\<rparr>"
  by (simp add: commentWeighted_def failing_image_env_def token_media_def garden_media_def
      hero_comment_def qualifying_voters_def uniq_def)

lemma commentWeighted_content:
  "commentWeighted env media cs c = Inr w \<Longrightarrow> content w = comment_content c"
  by (auto simp: commentWeighted_def Let_def split: sum.splits option.splits if_splits)

lemma promise_all_Inr:
  "promise_all f xs = Inr ys \<longleftrightarrow>
     length ys = length xs \<and> (\<forall>i<length xs. f (xs ! i) = Inr (ys ! i))"
proof (induction xs arbitrary: ys)
  case Nil
  show ?case by auto
next
  case (Cons x xs)
  show ?case
  proof (cases ys)
    case Nil
    then show ?thesis by (auto split: sum.splits)
  next
    case (Cons y ys')
    show ?thesis
      using Cons.IH [of ys'] Cons
      by (auto simp: less_Suc_eq_0_disj split: sum.splits)
  qed
qed

lemma commentsWeighted_each:
  "commentsWeighted env media cs comments = Inr ws \<longleftrightarrow>
     length ws = length comments \<and>
     (\<forall>i<length comments. commentWeighted env media cs (comments ! i) = Inr (ws ! i))"
  by (simp add: commentsWeighted_def promise_all_Inr)

subsection \<open>The comments that reach the weighting\<close>

lemma comment_path_undefined:
  "get_path (post_object c) [''comment'', ''author'', ''address''] = None"
  by (simp add: post_object_def)

lemma uniqBy_from_constant:
  "uniqBy_from (\<lambda>x. k) seen xs = (if k \<in> set seen then [] else take 1 xs)"
  by (induction xs arbitrary: seen) auto

lemma uniq_comments_first: "uniq_comments comments = take 1 comments"
  by (simp add: uniq_comments_def uniqBy_def comment_path_undefined uniqBy_from_constant)

lemma comments_to_evaluate_first_only:
  assumes "comments_to_evaluate env media td forceUpdate = Inr (Some comments)"
  shows "\<exists>allComments. fetchAllCommentsFor env (postId media) = Inr allComments \<and>
           comments = take 1 (getLatestComments env media allComments)"
  using assms
  by (auto simp: comments_to_evaluate_def Let_def uniq_comments_first
      split: if_splits sum.splits)

lemma first_latest_comment_is_picked:
  assumes "comments_to_evaluate env media td forceUpdate = Inr (Some comments)"
    and "commentsWeighted env media cs comments = Inr ws"
    and "fetchAllCommentsFor env (postId media) = Inr allComments"
    and "getLatestComments env media allComments = c # others"
  shows "topComment ws = Inr (comment_content c)"
proof -
  from comments_to_evaluate_first_only [OF assms(1)] assms(3,4)
  have cs: "comments = [c]" by auto
  with assms(2) obtain w where w: "ws = [w]" "commentWeighted env media cs c = Inr w"
    by (cases ws) (auto simp: commentsWeighted_each)
  from commentWeighted_content [OF w(2)] w(1) show ?thesis
    by (simp add: topComment_def orderBy_votes_desc_def)
qed



section \<open>Properties of the image loop\<close>

lemma image_loop_calls_bound:
  "snd (image_loop env td p a url attempts calls usage resp)
     \<le> calls + (MAX_ATTEMPTS - attempts)"
proof (induction env td p a url attempts calls usage resp rule: image_loop.induct)
  case (1 env td p a url attempts calls usage resp)
  show ?case
  proof (cases "attempts < MAX_ATTEMPTS")
    case False
    then show ?thesis by (subst image_loop.simps) simp
  next
    case True
    show ?thesis
    proof (cases "heroText env calls p a url")
      case (Inl e)
      with True show ?thesis by (subst image_loop.simps) simp
    next
      case (Inr tu)
      obtain response u where tu: "tu = (response, u)" by (cases tu)
      show ?thesis
      proof (cases "heroImage env calls (hero_image_request td response)")
        case (Inl e)
        with True Inr tu show ?thesis by (subst image_loop.simps) simp
      next
        case ir: (Inr r)
        show ?thesis
        proof (cases "success r")
          case True
          with \<open>attempts < MAX_ATTEMPTS\<close> Inr tu ir show ?thesis
            by (subst image_loop.simps) simp
        next
          case False
          from "1.IH" [OF \<open>attempts < MAX_ATTEMPTS\<close> Inr tu [symmetric] ir False]
          have "snd (image_loop env td p a url (Suc attempts) (Suc calls)
                  (add_image (add_tokens usage u)) (Some r))
                 \<le> Suc calls + (MAX_ATTEMPTS - Suc attempts)" .
          with \<open>attempts < MAX_ATTEMPTS\<close> Inr tu ir False show ?thesis
            by (subst image_loop.simps) simp
        qed
      qed
    qed
  qed
qed

lemma image_loop_two_failures:
  assumes "heroText env 0 p a url = Inr (t0, u0)"
    and "heroImage env 0 (hero_image_request td t0) = Inr r0" and "\<not> success r0"
    and "heroText env 1 p a url = Inr (t1, u1)"
    and "heroImage env 1 (hero_image_request td t1) = Inr r1" and "\<not> success r1"
  shows "image_loop env td p a url 0 0 usage None =
           (Inr (Some r1, add_image (add_tokens (add_image (add_tokens usage u0)) u1)), 2)"
proof -
  have 2: "image_loop env td p a url 2 2 us (Some r1) = (Inr (Some r1, us), 2)" for us
    by (subst image_loop.simps) (simp add: MAX_ATTEMPTS_def)
  have 1: "image_loop env td p a url (Suc 0) (Suc 0) us (Some r0) =
             (Inr (Some r1, add_image (add_tokens us u1)), 2)" for us
    using assms(4-6) 2
    by (subst image_loop.simps) (simp add: MAX_ATTEMPTS_def numeral_2_eq_2)
  show ?thesis
    using assms(1-3) 1 by (subst image_loop.simps) (simp add: MAX_ATTEMPTS_def)
qed

text \<open>
  Claim C7. The image loop of the handler calls \<open>generateImage\<close> at most twice,
  whatever the collaborators answer. When text generation succeeds and both image
  responses have \<open>success = false\<close>, exactly two calls are made and the code after
  the loop throws; and a throw of the image step, in a run that reached it, is caught by
  the handler, which returns no result.
\<close>

theorem hero_image_two_attempts:
  "snd (image_loop env td p a url 0 0 usage None) \<le> 2
   \<and> (heroText env 0 p a url = Inr (t0, u0) \<and>
       heroImage env 0 (hero_image_request td t0) = Inr r0 \<and> \<not> success r0 \<and>
       heroText env 1 p a url = Inr (t1, u1) \<and>
       heroImage env 1 (hero_image_request td t1) = Inr r1 \<and> \<not> success r1 \<longrightarrow>
         snd (image_loop env td p a url 0 0 usage None) = 2 \<and>
         hero_image env td p a url usage =
           Inl (Error ''Failed to generate hero image after multiple attempts''))
   \<and> (templateData media = Some gd \<and>
       comments_to_evaluate env media gd forceUpdate = Inr (Some comments) \<and>
       fetchAllCollectorsFor env (postId media) = Inr allCollectors \<and>
       commentsWeighted env media allCollectors comments = Inr weighted \<and>
       resolveImage env (uri media) = Inr (imageUri, imageUrl) \<and>
       topComment weighted = Inr topText \<and>
       hero_image env gd (fst (hero_traits (trim env) topText))
             (snd (hero_traits (trim env) topText)) imageUrl
         initial_usage = Inl e \<longrightarrow>
         bonsaiGarden_handler env (Some media) tdata forceUpdate = None)"
proof (intro conjI impI)
  show "snd (image_loop env td p a url 0 0 usage None) \<le> 2"
    using image_loop_calls_bound [of env td p a url 0 0 usage None]
    by (simp add: MAX_ATTEMPTS_def)
next
  assume h: "heroText env 0 p a url = Inr (t0, u0) \<and>
       heroImage env 0 (hero_image_request td t0) = Inr r0 \<and> \<not> success r0 \<and>
       heroText env 1 p a url = Inr (t1, u1) \<and>
       heroImage env 1 (hero_image_request td t1) = Inr r1 \<and> \<not> success r1"
  then have l: "image_loop env td p a url 0 0 usage None =
           (Inr (Some r1, add_image (add_tokens (add_image (add_tokens usage u0)) u1)), 2)"
    by (intro image_loop_two_failures) auto
  show "snd (image_loop env td p a url 0 0 usage None) = 2" by (simp add: l)
  show "hero_image env td p a url usage =
           Inl (Error ''Failed to generate hero image after multiple attempts'')"
    using h by (simp add: hero_image_def l)
next
  assume "templateData media = Some gd \<and>
       comments_to_evaluate env media gd forceUpdate = Inr (Some comments) \<and>
       fetchAllCollectorsFor env (postId media) = Inr allCollectors \<and>
       commentsWeighted env media allCollectors comments = Inr weighted \<and>
       resolveImage env (uri media) = Inr (imageUri, imageUrl) \<and>
       topComment weighted = Inr topText \<and>
       hero_image env gd (fst (hero_traits (trim env) topText))
             (snd (hero_traits (trim env) topText)) imageUrl
         initial_usage = Inl e"
  then show "bonsaiGarden_handler env (Some media) tdata forceUpdate = None"
    by (simp add: bonsaiGarden_handler_def bonsaiGarden_try_def)
qed

theorem hero_image_two_attempts_witness:
  "snd (image_loop failing_image_env garden_data ''brave'' ''running'' ''https://image-1'' 0 0
          initial_usage None) = 2 \<and>
   bonsaiGarden_handler failing_image_env (Some garden_media) None False = None"
proof -
  let ?u = "\<lparr>promptTokens = 10, completionTokens = 5, totalTokens = 15\<rparr>"
  let ?r = "image_failure (Msg ''Invalid response format from Venice AI'')"
  have t: "heroText failing_image_env n p a url = Inr (''a hero'', ?u)" for n p a url
    by (simp add: failing_image_env_def)
  have i: "heroImage failing_image_env n d = Inr ?r" for n d
    by (simp add: failing_image_env_def)
  have f: "\<not> success ?r" by (simp add: image_failure_def)
  have loop: "snd (image_loop failing_image_env garden_data p a url 0 0 initial_usage None) = 2"
    and hero: "hero_image failing_image_env garden_data p a url initial_usage =
      Inl (Error ''Failed to generate hero image after multiple attempts'')" for p a url
    using hero_image_two_attempts [of failing_image_env garden_data p a url initial_usage
        "''a hero''" ?u ?r "''a hero''" ?u ?r] t i f
    by simp_all
  have td: "templateData garden_media = Some garden_data" by (simp add: garden_media_def)
  have c: "comments_to_evaluate failing_image_env garden_media garden_data False =
             Inr (Some [hero_comment])"
    by (simp add: comments_to_evaluate_def uniq_comments_first failing_image_env_def garden_data_def
        DEFAULT_MIN_ENGAGEMENT_UPDATE_THREHOLD_def)
  have col: "fetchAllCollectorsFor failing_image_env (postId garden_media) = Inr [''0xa'', ''0xb'']"
    by (simp add: failing_image_env_def)
  have w: "commentsWeighted failing_image_env garden_media [''0xa'', ''0xb''] [hero_comment] =
             Inr [\<lparr>content = ''brave | running'', votes = 2\<rparr>]"
    by (simp add: commentsWeighted_def commentWeighted_def failing_image_env_def garden_media_def
        hero_comment_def qualifying_voters_def uniq_def)
  have r: "resolveImage failing_image_env (uri garden_media) =
             Inr (''lens://image-1'', ''https://image-1'')"
    by (simp add: failing_image_env_def)
  have tc: "topComment [\<lparr>content = ''brave | running'', votes = 2\<rparr>] = Inr ''brave | running''"
    by (simp add: topComment_def orderBy_votes_desc_def)
  from hero_image_two_attempts [of failing_image_env garden_data "''brave''" "''running''"
      "''https://image-1''" initial_usage _ _ _ _ _ _ garden_media garden_data False
      "[hero_comment]" "[''0xa'', ''0xb'']" "[\<lparr>content = ''brave | running'', votes = 2\<rparr>]"
      "''lens://image-1''" "''https://image-1''" "''brave | running''"
      "Error ''Failed to generate hero image after multiple attempts''" None]
    td c col w r tc hero
  have "bonsaiGarden_handler failing_image_env (Some garden_media) None False = None"
    by simp
  with loop show ?thesis by simp
qed

section \<open>Properties of the service\<close>

subsection \<open>The example handler runs\<close>

lemma stored_post_fields:
  "templateData (stored_post s) = Some garden_data"
  "postId (stored_post s) = ''post-1''"
  "uri (stored_post s) = ''lens://post-1''"
  "token (stored_post s) = None"
  "status (stored_post s) = Some s"
  "versionCount (stored_post s) = Some 3"
  "versions (stored_post s) = Some [''v0'', ''v1'', ''v2'']"
  "updatedAt (stored_post s) = 0"
  "creator (stored_post s) = ''0xcreator''"
  "template (stored_post s) = BONSAI_GARDEN"
  by (simp_all add: stored_post_def garden_media_def)

lemma quiet_handler_skips:
  "bonsaiGarden_handler quiet_env (Some (stored_post s)) None False =
     Some (skip_response initial_usage)"
  by (simp add: bonsaiGarden_handler_def bonsaiGarden_try_def comments_to_evaluate_def
      quiet_env_def failing_image_env_def stored_post_fields)

lemma working_image_loop:
  assumes "heroText env 0 p a url = Inr (t, u)"
    and "heroImage env 0 (hero_image_request td t) = Inr r" and "success r"
  shows "image_loop env td p a url 0 0 usage None =
           (Inr (Some r, add_image (add_tokens usage u)), 1)"
  using assms by (subst image_loop.simps) (simp add: MAX_ATTEMPTS_def)

lemma hero_usage_eq:
  "add_image (add_tokens initial_usage \<lparr>promptTokens = 10, completionTokens = 5, totalTokens = 15\<rparr>)
     = hero_usage"
  by (simp add: add_image_def add_tokens_def initial_usage_def hero_usage_def)

lemma working_hero_image:
  assumes "heroText env = (\<lambda>n p a url.
         Inr (''a hero'', \<lparr>promptTokens = 10, completionTokens = 5, totalTokens = 15\<rparr>))"
    and "heroImage env = (\<lambda>n d. Inr (image_success [''data:image/png;base64,QUJD'']))"
  shows "hero_image env td p a url initial_usage =
     Inr (image_success [''data:image/png;base64,QUJD''], hero_usage)"
proof -
  have "image_loop env td p a url 0 0 initial_usage None =
          (Inr (Some (image_success [''data:image/png;base64,QUJD'']),
                add_image (add_tokens initial_usage
                  \<lparr>promptTokens = 10, completionTokens = 5, totalTokens = 15\<rparr>)), 1)"
    by (rule working_image_loop) (simp_all add: assms image_success_def)
  then show ?thesis
    by (simp add: hero_image_def hero_usage_eq image_success_def)
qed

lemma example_top:
  "topComment [\<lparr>content = ''brave | running'', votes = 2\<rparr>] = Inr ''brave | running''"
  by (simp add: topComment_def orderBy_votes_desc_def)

lemma working_handler_versions:
  "bonsaiGarden_handler working_env (Some (stored_post s)) None False =
     Some \<lparr>preview = None, metadata = None, refreshMetadata = Some True, refreshCache = None,
           persistVersionUri = Some ''https://storj/version-0.json'',
           updatedTemplateData = None, totalUsage = Some hero_usage\<rparr>"
proof -
  have g: "comments_to_evaluate working_env (stored_post s) garden_data False =
             Inr (Some [hero_comment])"
    by (simp add: comments_to_evaluate_def uniq_comments_first working_env_def
        failing_image_env_def garden_data_def
        DEFAULT_MIN_ENGAGEMENT_UPDATE_THREHOLD_def)
  have w: "commentsWeighted working_env (stored_post s) [''0xa'', ''0xb''] [hero_comment] =
     Inr [\<lparr>content = ''brave | running'', votes = 2\<rparr>]"
    by (simp add: commentsWeighted_def commentWeighted_def working_env_def failing_image_env_def
        stored_post_fields hero_comment_def qualifying_voters_def uniq_def)
  have h: "hero_image working_env garden_data p a url initial_usage =
     Inr (image_success [''data:image/png;base64,QUJD''], hero_usage)" for p a url
    by (rule working_hero_image) (simp_all add: working_env_def failing_image_env_def)
  have c: "fetchAllCollectorsFor working_env p = Inr [''0xa'', ''0xb'']"
    and r: "resolveImage working_env u = Inr (''lens://image-1'', ''https://image-1'')"
    and v: "persistVersion working_env u i = Inr (Some ''https://storj/version-0.json'')"
    for p u i
    by (simp_all add: working_env_def failing_image_env_def)
  show ?thesis
    by (simp add: bonsaiGarden_handler_def bonsaiGarden_try_def stored_post_fields g c w r h v
        example_top)
qed

lemma unversioned_handler_result:
  "bonsaiGarden_handler unversioned_env (Some (stored_post s)) None False =
     Some \<lparr>preview = None, metadata = None, refreshMetadata = Some True, refreshCache = None,
           persistVersionUri = None,
           updatedTemplateData = None, totalUsage = Some hero_usage\<rparr>"
proof -
  have g: "comments_to_evaluate unversioned_env (stored_post s) garden_data False =
             Inr (Some [hero_comment])"
    by (simp add: comments_to_evaluate_def uniq_comments_first unversioned_env_def working_env_def
        failing_image_env_def garden_data_def DEFAULT_MIN_ENGAGEMENT_UPDATE_THREHOLD_def)
  have w: "commentsWeighted unversioned_env (stored_post s) [''0xa'', ''0xb''] [hero_comment] =
     Inr [\<lparr>content = ''brave | running'', votes = 2\<rparr>]"
    by (simp add: commentsWeighted_def commentWeighted_def unversioned_env_def working_env_def
        failing_image_env_def stored_post_fields hero_comment_def qualifying_voters_def uniq_def)
  have h: "hero_image unversioned_env garden_data p a url initial_usage =
     Inr (image_success [''data:image/png;base64,QUJD''], hero_usage)" for p a url
    by (rule working_hero_image)
       (simp_all add: unversioned_env_def working_env_def failing_image_env_def)
  have c: "fetchAllCollectorsFor unversioned_env p = Inr [''0xa'', ''0xb'']"
    and r: "resolveImage unversioned_env u = Inr (''lens://image-1'', ''https://image-1'')"
    and v: "persistVersion unversioned_env u i = Inr None"
    for p u i
    by (simp_all add: unversioned_env_def working_env_def failing_image_env_def)
  show ?thesis
    by (simp add: bonsaiGarden_handler_def bonsaiGarden_try_def stored_post_fields g c w r h v
        example_top)
qed

subsection \<open>Runs without updates\<close>

lemma garden_getPost: "getPost (garden_world s) ''post-1'' = Some (stored_post s)"
  by (simp add: getPost_def garden_world_def stored_post_def js_slice_def)

lemma garden_service_fields:
  "templates (garden_service genv t) BONSAI_GARDEN = Some (bonsaiGarden_template genv)"
  "isDeleted (garden_service genv t) p = False"
  "canUpdate (garden_service genv t) c n = True"
  "now (garden_service genv t) = t"
  "DEFAULT_FREEZE_TIME (garden_service genv t) = 259200"
  "DEFAULT_MODEL_ID (garden_service genv t) = ''gpt-4o''"
  "refreshMetadataStatus (garden_service genv t) p = ''FINISHED''"
  "isProcessing (garden_service genv t) p = False"
  by (simp_all add: garden_service_def)

lemma garden_template_fields:
  "handler (bonsaiGarden_template genv) m td f = Inr (bonsaiGarden_handler genv m td f)"
  "defaultModel (bonsaiGarden_template genv) = None"
  by (simp_all add: bonsaiGarden_template_def)

lemma no_result_freezes_when_overdue:
  assumes "getPost w pid = Some d" and "templates env (template d) = Some tmpl"
    and "\<not> isDeleted env pid" and "canUpdate env (creator d) (template d)"
    and "handler tmpl (Some d) None force = Inr ro"
    and "ro = None \<or>
         (\<exists>r u. ro = Some r \<and> \<not> flag (refreshMetadata r) \<and> totalUsage r = Some u \<and>
            promptTokens u = 0 \<and> imagesCreated u = Some 0 \<and> videosCreated u = Some 0)"
  shows "handlePostUpdate env w pid force =
           (freeze_if_overdue env (w\<lparr>handler_runs := handler_runs w @ [pid]\<rparr>) pid d, None)"
  using assms by (auto simp: handlePostUpdate_def Let_def)

text \<open>
  Claim C2, at the response the templates return when they skip an update:
  \<open>{ metadata: undefined, totalUsage }\<close> with zero tokens and zero images, no
  \<open>videosCreated\<close> property and no refresh request. The post was last updated at time 0,
  the run happens at time 1000000 and the freeze time is 259200 seconds. The run is not
  taken as one without updates: the post is not frozen, its document is as before
  (status \<open>ACTIVE\<close>), and \<open>decrementCredits\<close> is called with a usage of zero.
\<close>

theorem skipped_update_never_freezes:
  "bonsaiGarden_handler quiet_env (Some (stored_post ACTIVE)) None False =
     Some (skip_response initial_usage)
   \<and> DEFAULT_FREEZE_TIME (garden_service quiet_env 1000000)
       < now (garden_service quiet_env 1000000) - updatedAt (stored_post ACTIVE)
   \<and> handlePostUpdate (garden_service quiet_env 1000000) (garden_world ACTIVE) ''post-1'' False =
       ((garden_world ACTIVE)
          \<lparr>debits := [usage_debit ''0xcreator'' ''gpt-4o'' (Some initial_usage)],
           handler_runs := [''post-1'']\<rparr>, None)
   \<and> mongo_media (fst (handlePostUpdate (garden_service quiet_env 1000000) (garden_world ACTIVE)
         ''post-1'' False)) ''post-1'' = Some (stored_post ACTIVE)"
proof -
  have h: "bonsaiGarden_handler quiet_env (Some (stored_post ACTIVE)) None False =
     Some (skip_response initial_usage)"
    by (rule quiet_handler_skips)
  have t: "DEFAULT_FREEZE_TIME (garden_service quiet_env 1000000)
       < now (garden_service quiet_env 1000000) - updatedAt (stored_post ACTIVE)"
    by (simp add: garden_service_fields stored_post_fields)
  have r: "handlePostUpdate (garden_service quiet_env 1000000) (garden_world ACTIVE) ''post-1'' False =
       ((garden_world ACTIVE)
          \<lparr>debits := [usage_debit ''0xcreator'' ''gpt-4o'' (Some initial_usage)],
           handler_runs := [''post-1'']\<rparr>, None)"
    by (simp add: handlePostUpdate_def garden_getPost stored_post_fields garden_service_fields
        garden_template_fields h skip_response_def flag_def initial_usage_def apply_response_def
        nonempty_def present_def decrementCredits_def)
       (simp add: garden_world_def)
  have m: "mongo_media ((garden_world ACTIVE)
          \<lparr>debits := [usage_debit ''0xcreator'' ''gpt-4o'' (Some initial_usage)],
           handler_runs := [''post-1'']\<rparr>) ''post-1'' = Some (stored_post ACTIVE)"
    by (simp add: garden_world_def)
  from h t r m show ?thesis by simp
qed

subsection \<open>Reactivation\<close>

lemma persisted_status_simps:
  "persisted_status (w\<lparr>handler_runs := hr\<rparr>) pid = persisted_status w pid"
  "persisted_status (w\<lparr>debits := ds\<rparr>) pid = persisted_status w pid"
  "persisted_status (w\<lparr>refreshes := rs\<rparr>) pid = persisted_status w pid"
  "persisted_status (removePostFromCache w d) pid = persisted_status w pid"
  "persisted_status (cachePost w d) pid = persisted_status w pid"
  "persisted_status (decrementCredits w x) pid = persisted_status w pid"
  by (simp_all add: persisted_status_def removePostFromCache_def cachePost_def
      decrementCredits_def)

lemma persisted_status_set_status:
  "persisted_status w pid = Some s \<Longrightarrow> persisted_status (set_status w pid s') pid = Some s'"
  by (auto simp: persisted_status_def set_status_def updateOne_def apply_update_def
      split: option.splits)

lemma persisted_status_freeze:
  "persisted_status w pid = Some s \<Longrightarrow> s \<noteq> ACTIVE \<Longrightarrow>
   persisted_status (freeze_if_overdue env w pid d) pid \<noteq> Some ACTIVE"
  by (simp add: freeze_if_overdue_def persisted_status_simps persisted_status_set_status)

lemma persisted_status_reactivated:
  assumes "persisted_status w pid = Some s" and "status d = Some FAILED \<or> status d = Some DISABLED"
  shows "persisted_status (updateOne w pid (version_update d response)) pid = Some ACTIVE"
  using assms
  by (auto simp: persisted_status_def updateOne_def version_update_def apply_update_def Let_def
      split: option.splits)

lemma persisted_status_apply_response:
  assumes "persisted_status w pid = Some s" and "status d = Some FAILED \<or> status d = Some DISABLED"
    and "\<not> ((present (metadata response) \<or> flag (refreshMetadata response)) \<and>
              refreshMetadataStatus env pid = ''FAILED'')"
  shows "persisted_status (apply_response env w pid d tmpl response) pid = Some ACTIVE"
proof -
  have r: "persisted_status (updateOne w pid (version_update d response)) pid = Some ACTIVE"
    using assms(1,2) by (rule persisted_status_reactivated)
  show ?thesis
    using assms(2,3) r
    by (auto simp: apply_response_def Let_def persisted_status_simps)
qed

lemma getPost_uncached_status:
  assumes "redis_posts w pid = None" and "getPost w pid = Some d"
  shows "persisted_status w pid = status d"
  using assms by (auto simp: getPost_def persisted_status_def)

lemma persisted_status_freeze_if_overdue:
  "persisted_status w pid = Some s \<Longrightarrow>
   persisted_status (freeze_if_overdue env w pid d) pid =
     (if now env - updatedAt d > DEFAULT_FREEZE_TIME env then Some FAILED else Some s)"
  by (simp add: freeze_if_overdue_def persisted_status_simps persisted_status_set_status)

text \<open>
  Claim C4, as the code has it. For a post whose persisted status is \<open>FAILED\<close> or
  \<open>DISABLED\<close>, a run of \<open>handlePostUpdate\<close> leaves the status \<open>ACTIVE\<close> only when
  the run reached the handler and the handler returned a response. And when the post is
  read from the database (it is not cached), every run whose response asks for a
  metadata refresh or reports prompt tokens or images leaves it \<open>ACTIVE\<close>, unless the
  metadata refresh then fails; whether the response carries a new version plays no part.
\<close>

theorem reactivation_without_version_requirement:
  assumes st: "persisted_status w pid = Some FAILED \<or> persisted_status w pid = Some DISABLED"
  shows "(persisted_status (fst (handlePostUpdate env w pid force)) pid = Some ACTIVE \<longrightarrow>
            (\<exists>d tmpl response. getPost w pid = Some d \<and> templates env (template d) = Some tmpl \<and>
               \<not> isDeleted env pid \<and> canUpdate env (creator d) (template d) \<and>
               handler tmpl (Some d) None force = Inr (Some response)))
       \<and> (redis_posts w pid = None \<and> getPost w pid = Some d \<and>
          templates env (template d) = Some tmpl \<and> \<not> isDeleted env pid \<and>
          canUpdate env (creator d) (template d) \<and>
          handler tmpl (Some d) None force = Inr (Some response) \<and>
          (flag (refreshMetadata response) \<or>
           (\<exists>u. totalUsage response = Some u \<and>
              (promptTokens u \<noteq> 0 \<or> (\<exists>n. imagesCreated u = Some (Suc n))))) \<and>
          \<not> ((present (metadata response) \<or> flag (refreshMetadata response)) \<and>
               refreshMetadataStatus env pid = ''FAILED'')
          \<longrightarrow> persisted_status (fst (handlePostUpdate env w pid force)) pid = Some ACTIVE)"
proof (intro conjI impI)
  assume a: "persisted_status (fst (handlePostUpdate env w pid force)) pid = Some ACTIVE"
  from st obtain s where s: "persisted_status w pid = Some s" "s \<noteq> ACTIVE" by auto
  have s1: "persisted_status (w\<lparr>handler_runs := handler_runs w @ [pid]\<rparr>) pid = Some s"
    using s by (simp add: persisted_status_simps)
  show "\<exists>d tmpl response. getPost w pid = Some d \<and> templates env (template d) = Some tmpl \<and>
               \<not> isDeleted env pid \<and> canUpdate env (creator d) (template d) \<and>
               handler tmpl (Some d) None force = Inr (Some response)"
  proof (cases "getPost w pid")
    case None
    with a s show ?thesis by (simp add: handlePostUpdate_def)
  next
    case (Some d)
    show ?thesis
    proof (cases "templates env (template d)")
      case None
      with a s Some show ?thesis by (simp add: handlePostUpdate_def)
    next
      case tm: (Some tmpl)
      have reach: "\<not> isDeleted env pid \<and> canUpdate env (creator d) (template d)"
        using a s Some tm
        by (auto simp: handlePostUpdate_def persisted_status_simps persisted_status_set_status
            split: if_splits)
      show ?thesis
      proof (cases "handler tmpl (Some d) None force")
        case (Inl e)
        with a s Some tm reach show ?thesis
          by (simp add: handlePostUpdate_def Let_def persisted_status_simps)
      next
        case (Inr ro)
        show ?thesis
        proof (cases ro)
          case None
          with a s1 Some tm Inr reach persisted_status_freeze [OF s1 s(2), of env d]
          show ?thesis
            by (simp add: handlePostUpdate_def Let_def)
        next
          case r: (Some response)
          with Some tm Inr reach show ?thesis by simp
        qed
      qed
    qed
  qed
next
  assume h: "redis_posts w pid = None \<and> getPost w pid = Some d \<and>
          templates env (template d) = Some tmpl \<and> \<not> isDeleted env pid \<and>
          canUpdate env (creator d) (template d) \<and>
          handler tmpl (Some d) None force = Inr (Some response) \<and>
          (flag (refreshMetadata response) \<or>
           (\<exists>u. totalUsage response = Some u \<and>
              (promptTokens u \<noteq> 0 \<or> (\<exists>n. imagesCreated u = Some (Suc n))))) \<and>
          \<not> ((present (metadata response) \<or> flag (refreshMetadata response)) \<and>
               refreshMetadataStatus env pid = ''FAILED'')"
  then have sd: "persisted_status w pid = status d"
    by (intro getPost_uncached_status) auto
  with st have d: "status d = Some FAILED \<or> status d = Some DISABLED" by simp
  from st obtain s where "persisted_status w pid = Some s" by auto
  then have s1: "persisted_status (w\<lparr>handler_runs := handler_runs w @ [pid]\<rparr>) pid = Some s"
    by (simp add: persisted_status_simps)
  have "persisted_status
          (apply_response env (w\<lparr>handler_runs := handler_runs w @ [pid]\<rparr>) pid d tmpl response)
          pid = Some ACTIVE"
    using s1 d h by (intro persisted_status_apply_response) auto
  with h show "persisted_status (fst (handlePostUpdate env w pid force)) pid = Some ACTIVE"
    by (auto simp: handlePostUpdate_def Let_def)
qed

lemma garden_persisted_status: "persisted_status (garden_world s) ''post-1'' = Some s"
  by (simp add: persisted_status_def garden_world_def stored_post_fields)

lemma garden_run:
  assumes "bonsaiGarden_handler genv (Some (stored_post s)) None False = Some response"
    and "flag (refreshMetadata response)"
  shows "handlePostUpdate (garden_service genv t) (garden_world s) ''post-1'' False =
           (apply_response (garden_service genv t)
              ((garden_world s)\<lparr>handler_runs := [''post-1'']\<rparr>) ''post-1'' (stored_post s)
              (bonsaiGarden_template genv) response, None)"
  using assms
  by (simp add: handlePostUpdate_def garden_getPost stored_post_fields garden_service_fields
      garden_template_fields)
     (simp add: garden_world_def)

text \<open>
  A post with persisted status \<open>FAILED\<close>, three versions and the count 3. The handler
  generates an image but stores no version (\<open>persistVersionUri\<close> is undefined). The run
  sets the status to \<open>ACTIVE\<close>; the versions and the count of the document are as before.
\<close>

theorem reactivation_without_new_version:
  "persisted_status (garden_world FAILED) ''post-1'' = Some FAILED \<and>
   bonsaiGarden_handler unversioned_env (Some (stored_post FAILED)) None False =
     Some \<lparr>preview = None, metadata = None, refreshMetadata = Some True, refreshCache = None,
           persistVersionUri = None, updatedTemplateData = None,
           totalUsage = Some hero_usage\<rparr> \<and>
   mongo_media (fst (handlePostUpdate (garden_service unversioned_env 1000) (garden_world FAILED)
       ''post-1'' False)) ''post-1'' = Some ((stored_post FAILED)\<lparr>status := Some ACTIVE\<rparr>) \<and>
   versions ((stored_post FAILED)\<lparr>status := Some ACTIVE\<rparr>) = versions (stored_post FAILED) \<and>
   versionCount ((stored_post FAILED)\<lparr>status := Some ACTIVE\<rparr>) = versionCount (stored_post FAILED)"
proof -
  let ?r = "\<lparr>preview = None, metadata = None, refreshMetadata = Some True, refreshCache = None,
           persistVersionUri = None, updatedTemplateData = None,
           totalUsage = Some hero_usage\<rparr> :: BonsaiGardenTemplateData TemplateHandlerResponse"
  have h: "bonsaiGarden_handler unversioned_env (Some (stored_post FAILED)) None False = Some ?r"
    by (rule unversioned_handler_result)
  have "handlePostUpdate (garden_service unversioned_env 1000) (garden_world FAILED) ''post-1'' False =
           (apply_response (garden_service unversioned_env 1000)
              ((garden_world FAILED)\<lparr>handler_runs := [''post-1'']\<rparr>) ''post-1'' (stored_post FAILED)
              (bonsaiGarden_template unversioned_env) ?r, None)"
    by (rule garden_run [OF h]) (simp add: flag_def)
  then have "mongo_media (fst (handlePostUpdate (garden_service unversioned_env 1000)
       (garden_world FAILED) ''post-1'' False)) ''post-1'' =
         Some ((stored_post FAILED)\<lparr>status := Some ACTIVE\<rparr>)"
    by (simp add: apply_response_def stored_post_fields nonempty_def flag_def present_def
        garden_service_fields updateOne_def version_update_def apply_update_def cachePost_def
        decrementCredits_def garden_world_def)
  with h garden_persisted_status [of FAILED] show ?thesis by simp
qed

text \<open>
  Claim C5, at a post with persisted status \<open>FAILED\<close>, three versions and the count
  3, which is not cached. The handler returns a new version URI. The run appends the URI
  to \<open>versions\<close> and sets the status to \<open>ACTIVE\<close>, but the document's
  \<open>versionCount\<close> is still 3: the \<open>$set\<close> of the status replaced the \<open>$set\<close> of the
  count.
\<close>

theorem version_count_lost_on_reactivation:
  "bonsaiGarden_handler working_env (Some (stored_post FAILED)) None False =
     Some \<lparr>preview = None, metadata = None, refreshMetadata = Some True, refreshCache = None,
           persistVersionUri = Some ''https://storj/version-0.json'',
           updatedTemplateData = None, totalUsage = Some hero_usage\<rparr> \<and>
   mongo_media (garden_world FAILED) ''post-1'' = Some (stored_post FAILED) \<and>
   versionCount (stored_post FAILED) = Some 3 \<and>
   mongo_media (fst (handlePostUpdate (garden_service working_env 1000) (garden_world FAILED)
       ''post-1'' False)) ''post-1'' =
     Some ((stored_post FAILED)
            \<lparr>versions := Some [''v0'', ''v1'', ''v2'', ''https://storj/version-0.json''],
             versionCount := Some 3, status := Some ACTIVE\<rparr>)"
proof -
  let ?r = "\<lparr>preview = None, metadata = None, refreshMetadata = Some True, refreshCache = None,
           persistVersionUri = Some ''https://storj/version-0.json'',
           updatedTemplateData = None, totalUsage = Some hero_usage\<rparr>
             :: BonsaiGardenTemplateData TemplateHandlerResponse"
  have h: "bonsaiGarden_handler working_env (Some (stored_post FAILED)) None False = Some ?r"
    by (rule working_handler_versions)
  have "handlePostUpdate (garden_service working_env 1000) (garden_world FAILED) ''post-1'' False =
           (apply_response (garden_service working_env 1000)
              ((garden_world FAILED)\<lparr>handler_runs := [''post-1'']\<rparr>) ''post-1'' (stored_post FAILED)
              (bonsaiGarden_template working_env) ?r, None)"
    by (rule garden_run [OF h]) (simp add: flag_def)
  then have m: "mongo_media (fst (handlePostUpdate (garden_service working_env 1000)
       (garden_world FAILED) ''post-1'' False)) ''post-1'' =
     Some ((stored_post FAILED)
            \<lparr>versions := Some [''v0'', ''v1'', ''v2'', ''https://storj/version-0.json''],
             versionCount := Some 3, status := Some ACTIVE\<rparr>)"
    by (simp add: apply_response_def stored_post_fields nonempty_def flag_def present_def
        garden_service_fields updateOne_def version_update_def apply_update_def cachePost_def
        decrementCredits_def garden_world_def)
  have "mongo_media (garden_world FAILED) ''post-1'' = Some (stored_post FAILED)"
    by (simp add: garden_world_def)
  with h m show ?thesis by (simp add: stored_post_fields)
qed

theorem reactivation_without_version_requirement_witness:
  "persisted_status (garden_world FAILED) ''post-1'' = Some FAILED \<and>
   persisted_status (fst (handlePostUpdate (garden_service unversioned_env 1000)
      (garden_world FAILED) ''post-1'' False)) ''post-1'' = Some ACTIVE"
proof -
  let ?env = "garden_service unversioned_env 1000"
  let ?r = "\<lparr>preview = None, metadata = None, refreshMetadata = Some True, refreshCache = None,
           persistVersionUri = None, updatedTemplateData = None,
           totalUsage = Some hero_usage\<rparr> :: BonsaiGardenTemplateData TemplateHandlerResponse"
  have st: "persisted_status (garden_world FAILED) ''post-1'' = Some FAILED \<or>
            persisted_status (garden_world FAILED) ''post-1'' = Some DISABLED"
    by (simp add: garden_persisted_status)
  have 1: "redis_posts (garden_world FAILED) ''post-1'' = None" by (simp add: garden_world_def)
  have 2: "getPost (garden_world FAILED) ''post-1'' = Some (stored_post FAILED)"
    by (rule garden_getPost)
  have 3: "templates ?env (template (stored_post FAILED)) = Some (bonsaiGarden_template unversioned_env)"
    by (simp add: stored_post_fields garden_service_fields)
  have 4: "\<not> isDeleted ?env ''post-1''"
    "canUpdate ?env (creator (stored_post FAILED)) (template (stored_post FAILED))"
    by (simp_all add: garden_service_fields)
  have 5: "handler (bonsaiGarden_template unversioned_env) (Some (stored_post FAILED)) None False =
             Inr (Some ?r)"
    by (simp add: garden_template_fields unversioned_handler_result)
  have 6: "flag (refreshMetadata ?r)" "refreshMetadataStatus ?env ''post-1'' \<noteq> ''FAILED''"
    by (simp_all add: flag_def garden_service_fields)
  from reactivation_without_version_requirement [OF st, of ?env False "stored_post FAILED"
      "bonsaiGarden_template unversioned_env" ?r] 1 2 3 4 5 6
  have "persisted_status (fst (handlePostUpdate ?env (garden_world FAILED) ''post-1'' False))
          ''post-1'' = Some ACTIVE"
    by blast
  then show ?thesis by (simp add: garden_persisted_status)
qed

subsection \<open>Disabled posts\<close>

lemma handler_runs_simps:
  "handler_runs (removePostFromCache w d) = handler_runs w"
  "handler_runs (cachePost w d) = handler_runs w"
  "handler_runs (decrementCredits w x) = handler_runs w"
  "handler_runs (updateOne w pid u) = handler_runs w"
  "handler_runs (set_status w pid s) = handler_runs w"
  by (simp_all add: removePostFromCache_def cachePost_def decrementCredits_def updateOne_def
      set_status_def split: option.splits)

lemma handler_runs_freeze: "handler_runs (freeze_if_overdue env w pid d) = handler_runs w"
  by (simp add: freeze_if_overdue_def handler_runs_simps)

lemma handler_runs_apply_response:
  "handler_runs (apply_response env w pid d tmpl response) = handler_runs w"
  by (simp add: apply_response_def Let_def handler_runs_simps)

lemma handlePostUpdate_invokes_handler:
  assumes "getPost w pid = Some d" and "templates env (template d) = Some tmpl"
    and "\<not> isDeleted env pid" and "canUpdate env (creator d) (template d)"
  shows "handler_runs (fst (handlePostUpdate env w pid force)) = handler_runs w @ [pid]"
  using assms
  by (auto simp: handlePostUpdate_def Let_def handler_runs_freeze handler_runs_apply_response
      split: sum.splits option.splits)

lemma post_disable_route_by_creator:
  assumes "getPost w pid = Some d" and "creator d = who" and "mongo_media w pid = Some doc"
  shows "post_disable_route w pid (Some who) =
           (removePostFromCache (set_status w pid DISABLED) d, 200) \<and>
         persisted_status (fst (post_disable_route w pid (Some who))) pid = Some DISABLED"
  using assms
  by (simp add: post_disable_route_def persisted_status_simps)
     (simp add: persisted_status_def set_status_def updateOne_def apply_update_def)

text \<open>
  Claim C3, as the code has it. Neither the update route nor \<open>handlePostUpdate\<close>
  consults the status before the handler runs; \<open>handlePostUpdate\<close> reads it only after
  the handler has returned, to set it back to \<open>ACTIVE\<close>. For a post whose persisted status is \<open>DISABLED\<close>, a request to
  \<open>POST /post/:postId/update\<close> that finds no job in flight and a creator with enough
  credits is enqueued, forced or not; only a forced request by someone other than the
  recorded creator is rejected, with status 401. The job that runs invokes the handler,
  provided the template is registered, Lens does not report the post deleted and the
  creator still has credits.
\<close>

theorem disabled_post_is_still_updated:
  assumes "persisted_status w pid = Some DISABLED" and "getPost w pid = Some d"
  shows "(\<not> isProcessing env pid \<and> canUpdate env (creator d) (template d) \<longrightarrow>
            post_update_route env w \<lparr>req_postId = pid, req_forceUpdate = force, req_user = user\<rparr> =
              (if force \<and> Some (creator d) \<noteq> user then Status 401 else Enqueued pid force))
       \<and> (templates env (template d) = Some tmpl \<and> \<not> isDeleted env pid \<and>
          canUpdate env (creator d) (template d) \<longrightarrow>
            handler_runs (fst (handlePostUpdate env w pid force)) = handler_runs w @ [pid])"
proof (intro conjI impI)
  assume "\<not> isProcessing env pid \<and> canUpdate env (creator d) (template d)"
  with assms(2) show "post_update_route env w
      \<lparr>req_postId = pid, req_forceUpdate = force, req_user = user\<rparr> =
        (if force \<and> Some (creator d) \<noteq> user then Status 401 else Enqueued pid force)"
    by (simp add: post_update_route_def)
next
  assume "templates env (template d) = Some tmpl \<and> \<not> isDeleted env pid \<and>
          canUpdate env (creator d) (template d)"
  with assms(2) show "handler_runs (fst (handlePostUpdate env w pid force)) = handler_runs w @ [pid]"
    by (intro handlePostUpdate_invokes_handler) auto
qed

theorem disabled_post_is_still_updated_witness:
  "persisted_status (garden_world DISABLED) ''post-1'' = Some DISABLED \<and>
   post_update_route (garden_service working_env 1000) (garden_world DISABLED)
     \<lparr>req_postId = ''post-1'', req_forceUpdate = True, req_user = Some ''0xstranger''\<rparr> = Status 401 \<and>
   post_update_route (garden_service working_env 1000) (garden_world DISABLED)
     \<lparr>req_postId = ''post-1'', req_forceUpdate = True, req_user = Some ''0xcreator''\<rparr> =
       Enqueued ''post-1'' True"
proof -
  let ?env = "garden_service working_env 1000"
  have st: "persisted_status (garden_world DISABLED) ''post-1'' = Some DISABLED"
    by (rule garden_persisted_status)
  have g: "getPost (garden_world DISABLED) ''post-1'' = Some (stored_post DISABLED)"
    by (rule garden_getPost)
  have c: "\<not> isProcessing ?env ''post-1''"
    "canUpdate ?env (creator (stored_post DISABLED)) (template (stored_post DISABLED))"
    "creator (stored_post DISABLED) = ''0xcreator''"
    by (simp_all add: garden_service_fields stored_post_fields)
  from disabled_post_is_still_updated [OF st g, of ?env True "Some ''0xstranger''"]
    disabled_post_is_still_updated [OF st g, of ?env True "Some ''0xcreator''"] c st
  show ?thesis by simp
qed

text \<open>
  A post with persisted status \<open>DISABLED\<close>; a request that is not forced, by an
  account that is not the creator. The request is enqueued and its job invokes the
  handler.
\<close>

theorem disabled_post_updated_without_force:
  "persisted_status (garden_world DISABLED) ''post-1'' = Some DISABLED \<and>
   post_update_route (garden_service working_env 1000) (garden_world DISABLED)
     \<lparr>req_postId = ''post-1'', req_forceUpdate = False, req_user = Some ''0xstranger''\<rparr> =
       Enqueued ''post-1'' False \<and>
   handler_runs (garden_world DISABLED) = [] \<and>
   handler_runs (fst (handlePostUpdate (garden_service working_env 1000) (garden_world DISABLED)
      ''post-1'' False)) = [''post-1'']"
proof -
  let ?env = "garden_service working_env 1000"
  have r: "post_update_route ?env (garden_world DISABLED)
     \<lparr>req_postId = ''post-1'', req_forceUpdate = False, req_user = Some ''0xstranger''\<rparr> =
       Enqueued ''post-1'' False"
    by (simp add: post_update_route_def garden_getPost garden_service_fields)
  have e: "handler_runs (garden_world DISABLED) = []" by (simp add: garden_world_def)
  have "handler_runs (fst (handlePostUpdate ?env (garden_world DISABLED) ''post-1'' False)) =
          handler_runs (garden_world DISABLED) @ [''post-1'']"
    by (rule handlePostUpdate_invokes_handler [OF garden_getPost])
       (simp_all add: stored_post_fields garden_service_fields)
  with r e garden_persisted_status [of DISABLED] show ?thesis by simp
qed

subsection \<open>Preview credits\<close>

lemma unseeded_preview_is_paid:
  assumes "redis_keys w (''create_preview_count:'' @ who) = None"
  shows "handlePreviewCredits env penv w templateName who usage model =
           decrementCredits w
             (usage_debit who
                (case model of None \<Rightarrow> DEFAULT_MODEL_ID env
                 | Some m \<Rightarrow> if m = [] then DEFAULT_MODEL_ID env else m) usage)"
  using assms by (simp add: handlePreviewCredits_def below_free_cap_def Let_def)

lemma unseeded_previews_are_paid:
  assumes "redis_keys w (''create_preview_count:'' @ who) = None"
  shows "previews env penv w templateName who usage model n =
           w\<lparr>debits := debits w @ replicate n
               (usage_debit who
                  (case model of None \<Rightarrow> DEFAULT_MODEL_ID env
                   | Some m \<Rightarrow> if m = [] then DEFAULT_MODEL_ID env else m) usage)\<rparr>"
  using assms
proof (induction n arbitrary: w)
  case 0
  show ?case by simp
next
  case (Suc n)
  let ?d = "usage_debit who
                  (case model of None \<Rightarrow> DEFAULT_MODEL_ID env
                   | Some m \<Rightarrow> if m = [] then DEFAULT_MODEL_ID env else m) usage"
  have k: "redis_keys (decrementCredits w ?d) (''create_preview_count:'' @ who) = None"
    using Suc.prems by (simp add: decrementCredits_def)
  show ?case
    using Suc.IH [OF k] Suc.prems
    by (simp add: unseeded_preview_is_paid decrementCredits_def replicate_app_Cons_same)
qed

text \<open>
  Claim C1, at a creator without a preview counter in Redis (no preview in the last
  hour), a template that is not premium and a cap of 5 free generations. The first
  preview calls \<open>decrementCredits\<close>, and so does each of the first five; no counter is
  ever created.
\<close>

theorem first_previews_are_paid:
  "debits (handlePreviewCredits env
             (penv\<lparr>PREMIUM_TEMPLATES := [], FREE_GENERATIONS_PER_HOUR := 5\<rparr>)
             (w\<lparr>redis_keys := Map.empty, debits := []\<rparr>) BONSAI_GARDEN who usage None) =
     [usage_debit who (DEFAULT_MODEL_ID env) usage] \<and>
   debits (previews env (penv\<lparr>PREMIUM_TEMPLATES := [], FREE_GENERATIONS_PER_HOUR := 5\<rparr>)
             (w\<lparr>redis_keys := Map.empty, debits := []\<rparr>) BONSAI_GARDEN who usage None 5) =
     replicate 5 (usage_debit who (DEFAULT_MODEL_ID env) usage) \<and>
   redis_keys (previews env (penv\<lparr>PREMIUM_TEMPLATES := [], FREE_GENERATIONS_PER_HOUR := 5\<rparr>)
             (w\<lparr>redis_keys := Map.empty, debits := []\<rparr>) BONSAI_GARDEN who usage None 5) =
     Map.empty"
  by (simp add: unseeded_preview_is_paid unseeded_previews_are_paid decrementCredits_def)

end
